theory Spec2Isabelle
  imports Complex_Main
begin

section \<open>Errors and the symbolic substrate\<close>

text \<open>
  The program is \<^verbatim>\<open>galgebra/metric.py\<close>. Every exception the source can raise is a value;
  the string is a short tag for the message of the source.
\<close>

datatype error =
    ValueError string
  | TypeError string
  | AttributeError string
  | IndexError

text \<open>
  An attribute of a Python object is either absent (reading it raises
  \<^verbatim>\<open>AttributeError\<close>) or holds a value.
\<close>

datatype 'a attr = Unset | Has 'a

text \<open>
  \<^verbatim>\<open>Simp.modes\<close> is a process-wide list (or tuple) of functions, or one function.
\<close>

datatype 'e simp_modes = ModeList "('e \<Rightarrow> 'e) list" | ModeFn "'e \<Rightarrow> 'e"

text \<open>
  The symbolic expressions are sympy's, which is not part of the repository. The
  operations of sympy that \<^verbatim>\<open>metric.py\<close> calls are the fields of a record that every
  function below takes as its first argument: \<open>'e\<close> is the type of expressions, HOL
  equality on \<open>'e\<close> is sympy's \<^verbatim>\<open>==\<close>. Operations that can raise return a sum.
  \<^item> \<open>sy_gt0 e\<close> is the truth value of \<^verbatim>\<open>e > 0\<close> in an \<^verbatim>\<open>if\<close> (a \<^verbatim>\<open>TypeError\<close> for a
    number that is not real);
  \<^item> \<open>sy_add_args e\<close> is \<^verbatim>\<open>e.args\<close> when \<^verbatim>\<open>isinstance(e, Add)\<close>, and \<open>None\<close> otherwise;
  \<^item> \<open>sy_args_cnc t\<close>, read for a non-commutative term only, is \<^verbatim>\<open>t.args_cnc()\<close>: the
    commutative factors, the first non-commutative factor, the other non-commutative
    factors;
  \<^item> \<open>sy_pow f r\<close> is \<^verbatim>\<open>f ** r\<close>; \<open>sy_subs e l\<close> is \<^verbatim>\<open>e.subs(l)\<close>;
  \<^item> \<open>sy_inv_simplified g\<close> is \<^verbatim>\<open>simplify(g.inv())\<close>, \<open>sy_adj_simplified g\<close> is
    \<^verbatim>\<open>simplify(g.adjugate())\<close>, \<open>sy_function name args\<close> is \<^verbatim>\<open>Function(name, real=True)(*args)\<close>;
  \<^item> \<open>sy_modes\<close> is the current value of \<^verbatim>\<open>Simp.modes\<close>.
\<close>

record 'e sympy =
  sy_zero :: 'e
  sy_one :: 'e
  sy_half :: 'e
  sy_add :: "'e \<Rightarrow> 'e \<Rightarrow> 'e"
  sy_sub :: "'e \<Rightarrow> 'e \<Rightarrow> 'e"
  sy_neg :: "'e \<Rightarrow> 'e"
  sy_mul :: "'e \<Rightarrow> 'e \<Rightarrow> 'e"
  sy_div :: "'e \<Rightarrow> 'e \<Rightarrow> 'e"
  sy_pow :: "'e \<Rightarrow> rat \<Rightarrow> 'e"
  sy_diff :: "'e \<Rightarrow> 'e \<Rightarrow> 'e"
  sy_subs :: "'e \<Rightarrow> ('e \<times> 'e) list \<Rightarrow> 'e"
  sy_is_number :: "'e \<Rightarrow> bool"
  sy_gt0 :: "'e \<Rightarrow> error + bool"
  sy_sqrt :: "'e \<Rightarrow> 'e"
  sy_abs :: "'e \<Rightarrow> 'e"
  sy_trigsimp :: "'e \<Rightarrow> 'e"
  sy_sqf_list :: "'e \<Rightarrow> error + ('e \<times> ('e \<times> int) list)"
  sy_expand :: "'e \<Rightarrow> 'e"
  sy_add_args :: "'e \<Rightarrow> 'e list option"
  sy_is_commutative :: "'e \<Rightarrow> bool"
  sy_args_cnc :: "'e \<Rightarrow> 'e list \<times> 'e \<times> 'e list"
  sy_mul_from_args :: "'e list \<Rightarrow> 'e"
  sy_inv_simplified :: "'e list list \<Rightarrow> error + 'e list list"
  sy_adj_simplified :: "'e list list \<Rightarrow> 'e list list"
  sy_function :: "string \<Rightarrow> 'e list \<Rightarrow> 'e"
  sy_modes :: "'e simp_modes"

section \<open>Linear decomposition\<close>

text \<open>\<^verbatim>\<open>bases.index(x)\<close>, read only when \<^verbatim>\<open>x in bases\<close>.\<close>

fun index_of :: "'a list \<Rightarrow> 'a \<Rightarrow> nat" where
  "index_of [] x = 0"
| "index_of (y # ys) x = (if y = x then 0 else Suc (index_of ys x))"

text \<open>
  One pass of the \<^verbatim>\<open>for term in args\<close> loop of \<^verbatim>\<open>linear_expand\<close>: a commutative term
  goes to the basis \<^verbatim>\<open>S(1)\<close>; any other term is split by \<^verbatim>\<open>args_cnc\<close>, its basis is the
  first non-commutative factor \<^verbatim>\<open>nc[0]\<close> and its coefficient \<^verbatim>\<open>Mul._from_args(c)\<close>.
\<close>

definition expand_term ::
  "'e sympy \<Rightarrow> 'e list \<times> 'e list \<Rightarrow> 'e \<Rightarrow> 'e list \<times> 'e list" where
  "expand_term S cb term =
     (let coefs = fst cb; bases = snd cb in
      if sy_is_commutative S term then
        (if sy_one S \<in> set bases
         then (coefs[index_of bases (sy_one S) :=
                  sy_add S (coefs ! index_of bases (sy_one S)) term], bases)
         else (coefs @ [term], bases @ [sy_one S]))
      else
        (let base = fst (snd (sy_args_cnc S term));
             coef = sy_mul_from_args S (fst (sy_args_cnc S term)) in
         if base \<in> set bases
         then (coefs[index_of bases base := sy_add S (coefs ! index_of bases base) coef], bases)
         else (coefs @ [coef], bases @ [base])))"

definition linear_expand :: "'e sympy \<Rightarrow> 'e \<Rightarrow> 'e list \<times> 'e list" where
  "linear_expand S expr0 =
     (let expr = sy_expand S expr0 in
      if expr = sy_zero S then ([expr], [sy_one S])
      else (case sy_add_args S expr of
              Some args \<Rightarrow> foldl (expand_term S) ([], []) args
            | None \<Rightarrow>
                if sy_is_commutative S expr then ([expr], [sy_one S])
                else foldl (expand_term S) ([], []) [expr]))"

text \<open>\<^verbatim>\<open>collect(A, nc_list)\<close>.\<close>

definition collect :: "'e sympy \<Rightarrow> 'e \<Rightarrow> 'e list \<Rightarrow> 'e" where
  "collect S A nc_list =
     (let cb = linear_expand S A in
      foldl (\<lambda>C x. if x \<in> set (snd cb)
                    then sy_add S C (sy_mul S (fst cb ! index_of (snd cb) x) x) else C)
            (sy_zero S) nc_list)"

section \<open>The simplifier\<close>

text \<open>\<^verbatim>\<open>apply_function_list\<close> on a list, and the inner loop of \<^verbatim>\<open>Simp.apply\<close>.\<close>

definition apply_modes :: "('e \<Rightarrow> 'e) list \<Rightarrow> 'e \<Rightarrow> 'e" where
  "apply_modes fs x = foldl (\<lambda>fx fi. fi fx) x fs"

definition Simp_apply :: "'e sympy \<Rightarrow> 'e \<Rightarrow> 'e" where
  "Simp_apply S expr =
     (let cb = linear_expand S expr in
      case sy_modes S of
        ModeList fs \<Rightarrow>
          foldl (\<lambda>obj (coef, base). sy_add S obj (sy_mul S (apply_modes fs coef) base))
                (sy_zero S) (zip (fst cb) (snd cb))
      | ModeFn f \<Rightarrow>
          foldl (\<lambda>obj (coef, base). sy_add S obj (sy_mul S (f coef) base))
                (sy_zero S) (zip (fst cb) (snd cb)))"

section \<open>Square roots\<close>

text \<open>
  The branch of \<^verbatim>\<open>square_root_of_expr\<close> for \<^verbatim>\<open>expr.is_number\<close>. The recursive call of
  the source, on a coefficient that is a number, runs this branch.
\<close>

definition sqrt_of_number :: "'e sympy \<Rightarrow> 'e \<Rightarrow> error + 'e" where
  "sqrt_of_number S expr =
     (case sy_gt0 S expr of
        Inl err \<Rightarrow> Inl err
      | Inr b \<Rightarrow> if b then Inr (sy_sqrt S expr) else Inr (sy_sqrt S (sy_neg S expr)))"

text \<open>
  The loop over \<^verbatim>\<open>pow_lst\<close>: an odd exponent returns \<^verbatim>\<open>sqrt(abs(expr))\<close> at once, an
  even one multiplies the accumulator by \<^verbatim>\<open>f ** (n / 2)\<close>.
\<close>

fun sqrt_factors :: "'e sympy \<Rightarrow> 'e \<Rightarrow> 'e \<Rightarrow> ('e \<times> int) list \<Rightarrow> 'e" where
  "sqrt_factors S expr coef [] = coef"
| "sqrt_factors S expr coef ((f, n) # ps) =
     (if n mod 2 \<noteq> 0 then sy_sqrt S (sy_abs S expr)
      else sqrt_factors S expr (sy_mul S coef (sy_pow S f (of_int n / 2))) ps)"

definition square_root_of_expr :: "'e sympy \<Rightarrow> 'e \<Rightarrow> error + 'e" where
  "square_root_of_expr S expr0 =
     (if sy_is_number S expr0 then sqrt_of_number S expr0
      else
        (let expr = sy_trigsimp S expr0 in
         case sy_sqf_list S expr of
           Inl err \<Rightarrow> Inl err
         | Inr (coef, pow_lst) \<Rightarrow>
             (if coef \<noteq> sy_one S then
                (if sy_is_number S coef then
                   (case sqrt_of_number S coef of
                      Inl err \<Rightarrow> Inl err
                    | Inr coef' \<Rightarrow> Inr (sqrt_factors S expr coef' pow_lst))
                 else Inr (sqrt_factors S expr (sy_sqrt S (sy_abs S coef)) pow_lst))
              else Inr (sqrt_factors S expr coef pow_lst))))"

section \<open>The metric instance\<close>

text \<open>
  The signature field \<^verbatim>\<open>self.sig\<close> holds the hint given by the caller (an integer, a
  string, or any other Python value) until \<^verbatim>\<open>signature()\<close> replaces it by a pair.
\<close>

datatype sigv = SInt int | SStr string | STuple int int | SOther

text \<open>
  The fields of a \<^verbatim>\<open>Metric\<close> object, \<^verbatim>\<open>self.g\<close> as \<open>self_g\<close>. A sympy matrix is the
  list of its rows, \<^verbatim>\<open>g[i, j]\<close> is \<open>g ! i ! j\<close>; the metric is taken to be an
  \<open>n \<times> n\<close> matrix (predicate \<open>square_matrix\<close> below). The fields \<^verbatim>\<open>dg\<close>, \<^verbatim>\<open>de\<close>,
  \<^verbatim>\<open>e_norm\<close> and \<^verbatim>\<open>e_sq_sgn\<close> are assigned on some paths of the constructor only.
\<close>

record 'e metric =
  self_sig :: sigv
  self_gsym :: "string option"
  self_Isq :: string
  self_is_ortho :: bool
  self_coords :: "'e list option"
  self_connect_flg :: bool
  self_norm :: bool
  self_detg :: "'e option"
  self_g_adj :: "'e list list option"
  self_g_inv :: "'e list list option"
  self_basis :: "'e list"
  self_r_symbols :: "'e list"
  self_n :: nat
  self_g :: "'e list list"
  self_g_raw :: "'e list list"
  self_g_is_numeric :: bool
  self_dg :: "'e list list list attr"
  self_de :: "'e list list option attr"
  self_e_norm :: "'e list option attr"
  self_e_sq_sgn :: "string attr"

definition square_matrix :: "nat \<Rightarrow> 'e list list \<Rightarrow> bool" where
  "square_matrix k a = (length a = k \<and> list_all (\<lambda>row. length row = k) a)"

definition bind_err :: "error + 'a \<Rightarrow> ('a \<Rightarrow> error + 'b) \<Rightarrow> error + 'b" where
  "bind_err r f = (case r of Inl err \<Rightarrow> Inl err | Inr v \<Rightarrow> f v)"

fun map_err :: "('a \<Rightarrow> error + 'b) \<Rightarrow> 'a list \<Rightarrow> error + 'b list" where
  "map_err f [] = Inr []"
| "map_err f (x # xs) =
     (case f x of
        Inl err \<Rightarrow> Inl err
      | Inr y \<Rightarrow> (case map_err f xs of Inl err \<Rightarrow> Inl err | Inr ys \<Rightarrow> Inr (y # ys)))"

text \<open>Python's \<^verbatim>\<open>sum(xs)\<close>: the additions start from \<^verbatim>\<open>0\<close>.\<close>

definition py_sum :: "'e sympy \<Rightarrow> 'e list \<Rightarrow> 'e" where
  "py_sum S xs = foldl (sy_add S) (sy_zero S) xs"

text \<open>\<^verbatim>\<open>eye(n)\<close>.\<close>

definition eye :: "'e sympy \<Rightarrow> nat \<Rightarrow> 'e list list" where
  "eye S k = map (\<lambda>i. map (\<lambda>j. if i = j then sy_one S else sy_zero S) [0..<k]) [0..<k]"

section \<open>Connection\<close>

text \<open>
  \<^verbatim>\<open>derivatives_of_g\<close>. Iterating over \<^verbatim>\<open>self.coords\<close> when it is \<^verbatim>\<open>None\<close> raises
  \<^verbatim>\<open>TypeError\<close> (unless no row is built).
\<close>

definition derivatives_of_g :: "'e sympy \<Rightarrow> 'e metric \<Rightarrow> error + 'e list list list" where
  "derivatives_of_g S m =
     (case self_coords m of
        None \<Rightarrow> if self_n m = 0 then Inr [] else Inl (TypeError ''NoneType is not iterable'')
      | Some cs \<Rightarrow>
          Inr (map (\<lambda>i. map (\<lambda>j. map (\<lambda>x_k. sy_diff S (self_g m ! i ! j) x_k) cs)
                          [0..<self_n m]) [0..<self_n m]))"

text \<open>
  \<^verbatim>\<open>init_connect_flg\<close>. The innermost loop reads \<^verbatim>\<open>dg[i][j][k]\<close> for \<^verbatim>\<open>k\<close> in
  \<^verbatim>\<open>n_range\<close> and breaks at the first non-zero entry; \<open>scan_k\<close> returns whether it
  broke. The \<^verbatim>\<open>break\<close> leaves the inner loop only, so every pair \<^verbatim>\<open>(i, j)\<close> is scanned.
\<close>

fun scan_k :: "'e sympy \<Rightarrow> 'e list \<Rightarrow> nat list \<Rightarrow> error + bool" where
  "scan_k S row [] = Inr False"
| "scan_k S row (k # ks) =
     (if k < length row
      then (if row ! k \<noteq> sy_zero S then Inr True else scan_k S row ks)
      else Inl IndexError)"

fun scan_ij ::
  "'e sympy \<Rightarrow> 'e list list list \<Rightarrow> nat \<Rightarrow> (nat \<times> nat) list \<Rightarrow> bool \<Rightarrow> error + bool" where
  "scan_ij S d k [] flg = Inr flg"
| "scan_ij S d k ((i, j) # ps) flg =
     (if i < length d \<and> j < length (d ! i)
      then (case scan_k S (d ! i ! j) [0..<k] of
              Inl err \<Rightarrow> Inl err
            | Inr hit \<Rightarrow> scan_ij S d k ps (flg \<or> hit))
      else Inl IndexError)"

definition init_connect_flg :: "'e sympy \<Rightarrow> 'e metric \<Rightarrow> error + 'e metric" where
  "init_connect_flg S m =
     (case self_dg m of
        Unset \<Rightarrow> Inl (AttributeError ''dg'')
      | Has d \<Rightarrow>
          (case scan_ij S d (self_n m) (List.product [0..<self_n m] [0..<self_n m]) False of
             Inl err \<Rightarrow> Inl err
           | Inr flg \<Rightarrow> Inr (m\<lparr>self_connect_flg := flg\<rparr>)))"

text \<open>
  \<^verbatim>\<open>inverse_metric\<close>. In the orthogonal branch the source evaluates
  \<^verbatim>\<open>S(1)/self.g(i,i)\<close>: it calls the matrix \<^verbatim>\<open>self.g\<close> instead of indexing it, and a
  sympy matrix is not callable, so the first pass of the loop raises \<^verbatim>\<open>TypeError\<close>.
\<close>

definition inverse_metric :: "'e sympy \<Rightarrow> 'e metric \<Rightarrow> error + 'e metric" where
  "inverse_metric S m =
     (if self_g_inv m \<noteq> None then Inr m
      else if self_is_ortho m then
        (if self_n m = 0 then Inr (m\<lparr>self_g_inv := Some (eye S (self_n m))\<rparr>)
         else Inl (TypeError ''Matrix object is not callable''))
      else
        (case self_gsym m of
           None \<Rightarrow>
             (case sy_inv_simplified S (self_g m) of
                Inl err \<Rightarrow> Inl err
              | Inr gi \<Rightarrow> Inr (m\<lparr>self_g_inv := Some gi\<rparr>))
         | Some s \<Rightarrow>
             (case self_coords m of
                None \<Rightarrow> Inl (TypeError ''argument after * must be an iterable'')
              | Some cs \<Rightarrow>
                  (let detg = sy_function S (''|'' @ s @ ''|'') cs;
                       g_adj = sy_adj_simplified S (self_g m)
                   in Inr (m\<lparr>self_detg := Some detg, self_g_adj := Some g_adj,
                             self_g_inv := Some (map (map (\<lambda>v. sy_div S v detg)) g_adj)\<rparr>)))))"

text \<open>
  \<^verbatim>\<open>Christoffel_symbols\<close>. \<open>Gamma_ijk\<close> is the local function of the source;
  \<open>dg_in_range\<close> says that no read \<^verbatim>\<open>dg[a][b][c]\<close> with \<^verbatim>\<open>a, b, c\<close> in \<^verbatim>\<open>n_range\<close>
  raises \<^verbatim>\<open>IndexError\<close>. The result is the instance (mode 2 assigns \<^verbatim>\<open>g_inv\<close>) and
  the returned value, \<open>None\<close> for the bare \<^verbatim>\<open>return\<close>.
\<close>

definition Gamma_ijk :: "'e sympy \<Rightarrow> 'e list list list \<Rightarrow> nat \<Rightarrow> nat \<Rightarrow> nat \<Rightarrow> 'e" where
  "Gamma_ijk S d i j k =
     sy_mul S (sy_half S) (sy_sub S (sy_add S (d ! j ! k ! i) (d ! i ! k ! j)) (d ! i ! j ! k))"

definition dg_in_range :: "'e list list list \<Rightarrow> nat \<Rightarrow> bool" where
  "dg_in_range d k =
     list_all (\<lambda>a. a < length d \<and>
        list_all (\<lambda>b. b < length (d ! a) \<and>
           list_all (\<lambda>c. c < length (d ! a ! b)) [0..<k]) [0..<k]) [0..<k]"

definition Christoffel_first ::
  "'e sympy \<Rightarrow> 'e list list list \<Rightarrow> nat \<Rightarrow> error + 'e list list list" where
  "Christoffel_first S d k =
     (if dg_in_range d k
      then Inr (map (\<lambda>i. map (\<lambda>j. map (\<lambda>l. Simp_apply S (Gamma_ijk S d i j l)) [0..<k])
                      [0..<k]) [0..<k])
      else Inl IndexError)"

definition Gamma2_ijk ::
  "'e sympy \<Rightarrow> 'e list list list \<Rightarrow> 'e list list \<Rightarrow> nat \<Rightarrow> nat \<Rightarrow> nat \<Rightarrow> 'e" where
  "Gamma2_ijk S Gamma1 gi i j k =
     py_sum S (map (\<lambda>l. sy_mul S (Gamma1 ! i ! j ! l) (gi ! l ! k))
                   [0..<length (Gamma1 ! i ! j)])"

definition Christoffel_symbols ::
  "'e sympy \<Rightarrow> 'e metric \<Rightarrow> int \<Rightarrow> error + ('e metric \<times> 'e list list list option)" where
  "Christoffel_symbols S m mode =
     (if \<not> self_connect_flg m then Inr (m, None)
      else case self_dg m of
        Unset \<Rightarrow> Inl (AttributeError ''dg'')
      | Has d \<Rightarrow>
          if mode = 1 then
            (case Christoffel_first S d (self_n m) of
               Inl err \<Rightarrow> Inl err
             | Inr dG \<Rightarrow> Inr (m, Some dG))
          else if mode = 2 then
            (case Christoffel_first S d (self_n m) of
               Inl err \<Rightarrow> Inl err
             | Inr Gamma1 \<Rightarrow>
                 (case inverse_metric S m of
                    Inl err \<Rightarrow> Inl err
                  | Inr m' \<Rightarrow>
                      (case self_g_inv m' of
                         None \<Rightarrow> Inl (TypeError ''NoneType is not subscriptable'')
                       | Some gi \<Rightarrow>
                           Inr (m', Some (map (\<lambda>i. map (\<lambda>j. map (\<lambda>k.
                                  Simp_apply S (Gamma2_ijk S Gamma1 gi i j k))
                                  [0..<self_n m]) [0..<self_n m]) [0..<self_n m])))))
          else Inl (ValueError ''In Christoffle_symobols mode is not allowed''))"

text \<open>\<^verbatim>\<open>derivatives_of_basis\<close>.\<close>

definition derivatives_of_basis :: "'e sympy \<Rightarrow> 'e metric \<Rightarrow> error + 'e metric" where
  "derivatives_of_basis S m =
     bind_err (derivatives_of_g S m) (\<lambda>d.
     bind_err (init_connect_flg S (m\<lparr>self_dg := Has d\<rparr>)) (\<lambda>m1.
       if \<not> self_connect_flg m1 then Inr (m1\<lparr>self_de := Has None\<rparr>)
       else
         bind_err (Christoffel_symbols S m1 1) (\<lambda>r.
           case snd r of
             None \<Rightarrow> Inl (TypeError ''NoneType is not subscriptable'')
           | Some dG \<Rightarrow>
               Inr (m1\<lparr>self_de := Has (Some
                     (map (\<lambda>i. map (\<lambda>j.
                        py_sum S (map (\<lambda>(Gam, e__k). sy_mul S Gam e__k)
                                      (zip (dG ! i ! j) (self_r_symbols m1))))
                        [0..<self_n m1]) [0..<self_n m1]))\<rparr>))))"

section \<open>Normalization\<close>

text \<open>
  \<^verbatim>\<open>normalize_metric\<close>. The first statement reads \<^verbatim>\<open>self.de\<close> and returns when it is
  \<^verbatim>\<open>None\<close>. The two nested loops assign every cell \<^verbatim>\<open>[x_i][jb]\<close> of \<^verbatim>\<open>de\<close> and every
  cell \<^verbatim>\<open>[ib, jb]\<close> of \<^verbatim>\<open>g\<close> once, from the old value of that cell alone.
\<close>

definition normalize_metric :: "'e sympy \<Rightarrow> 'e metric \<Rightarrow> error + 'e metric" where
  "normalize_metric S m =
     (case self_de m of
        Unset \<Rightarrow> Inl (AttributeError ''de'')
      | Has None \<Rightarrow> Inr m
      | Has (Some d) \<Rightarrow>
          (case self_e_norm m of
             Unset \<Rightarrow> Inl (AttributeError ''e_norm'')
           | Has None \<Rightarrow> Inl (TypeError ''NoneType is not subscriptable'')
           | Has (Some en) \<Rightarrow>
               (case self_coords m of
                  None \<Rightarrow> Inl (TypeError ''NoneType is not subscriptable'')
                | Some cs \<Rightarrow>
                    (let nr = [0..<self_n m];
                         renorm = map (\<lambda>ib. (self_r_symbols m ! ib,
                                              sy_div S (self_r_symbols m ! ib) (en ! ib))) nr;
                         d' = map (\<lambda>x_i. map (\<lambda>jb.
                                Simp_apply S
                                  (sy_div S
                                     (sy_sub S (sy_subs S (d ! x_i ! jb) renorm)
                                        (sy_mul S (sy_diff S (en ! jb) (cs ! x_i))
                                                  (self_basis m ! jb)))
                                     (en ! jb))) nr) nr;
                         g' = map (\<lambda>ib. map (\<lambda>jb.
                                Simp_apply S
                                  (sy_div S (self_g m ! ib ! jb)
                                            (sy_mul S (en ! ib) (en ! jb)))) nr) nr
                     in Inr (m\<lparr>self_de := Has (Some d'), self_g := g'\<rparr>)))))"

section \<open>Signature\<close>

text \<open>
  The counting loop of \<^verbatim>\<open>signature\<close>: it stops (\<^verbatim>\<open>break\<close>) at the first diagonal entry
  that is not a number.
\<close>

fun count_pq ::
  "'e sympy \<Rightarrow> 'e list list \<Rightarrow> nat list \<Rightarrow> int \<Rightarrow> int \<Rightarrow> error + (int \<times> int)" where
  "count_pq S a [] p q = Inr (p, q)"
| "count_pq S a (i # is) p q =
     (if sy_is_number S (a ! i ! i)
      then (case sy_gt0 S (a ! i ! i) of
              Inl err \<Rightarrow> Inl err
            | Inr b \<Rightarrow> if b then count_pq S a is (p + 1) q else count_pq S a is p (q + 1))
      else Inr (p, q))"

text \<open>The second half of \<^verbatim>\<open>signature\<close>: the signature from the hint.\<close>

definition signature_from_hint :: "'e metric \<Rightarrow> error + 'e metric" where
  "signature_from_hint m =
     (case self_sig m of
        SInt k \<Rightarrow>
          if k \<le> int (self_n m) then Inr (m\<lparr>self_sig := STuple k (int (self_n m) - k)\<rparr>)
          else Inl (ValueError ''self.sig > self.n, not an allowed hint'')
      | SStr s \<Rightarrow>
          if s = ''e'' then Inr (m\<lparr>self_sig := STuple (int (self_n m)) 0\<rparr>)
          else if s = ''m+'' then Inr (m\<lparr>self_sig := STuple (int (self_n m) - 1) 1\<rparr>)
          else if s = ''m-'' then Inr (m\<lparr>self_sig := STuple 1 (int (self_n m) - 1)\<rparr>)
          else Inl (ValueError ''self.sig is not an allowed hint'')
      | _ \<Rightarrow> Inl (ValueError ''is not allowed value for self.sig''))"

definition signature :: "'e sympy \<Rightarrow> 'e metric \<Rightarrow> error + 'e metric" where
  "signature S m =
     (if self_is_ortho m then
        (case count_pq S (self_g m) [0..<self_n m] 0 0 of
           Inl err \<Rightarrow> Inl err
         | Inr (p, q) \<Rightarrow>
             if p + q = int (self_n m) then Inr (m\<lparr>self_sig := STuple p q\<rparr>)
             else signature_from_hint m)
      else signature_from_hint m)"

section \<open>The constructor\<close>

text \<open>
  The first part of \<^verbatim>\<open>Metric.__init__\<close> turns the basis string into the lists of basis
  and reciprocal basis symbols (\<^verbatim>\<open>symbols_list\<close>) and the keyword \<^verbatim>\<open>g\<close> into the matrix
  \<^verbatim>\<open>self.g\<close>; an explicit matrix is used as it is. The constructor below starts from the
  results of that part: \<open>a_g_inv\<close> is \<open>Some\<close> only for the form \<^verbatim>\<open>g = 'g'\<close>, where the
  inverse is a matrix of named functions. \<open>upper_all P\<close> is the value of the flag that the
  two loops over \<^verbatim>\<open>i < j\<close> compute: the flag is cleared when an entry fails \<open>P\<close>.
\<close>

record 'e init_args =
  a_basis :: "'e list"
  a_r_symbols :: "'e list"
  a_g :: "'e list list"
  a_g_inv :: "'e list list option"
  a_coords :: "'e list option"
  a_norm :: bool
  a_sig :: sigv
  a_gsym :: "string option"
  a_Isq :: string

definition upper_all :: "('e \<Rightarrow> bool) \<Rightarrow> nat \<Rightarrow> 'e list list \<Rightarrow> bool" where
  "upper_all P k a =
     list_all (\<lambda>i. list_all (\<lambda>j. P (a ! i ! j)) (filter (\<lambda>j. i < j) [0..<k])) [0..<k]"

definition init_fields :: "'e sympy \<Rightarrow> 'e init_args \<Rightarrow> 'e metric" where
  "init_fields S a =
     \<lparr> self_sig = a_sig a, self_gsym = a_gsym a, self_Isq = a_Isq a,
       self_is_ortho = upper_all (\<lambda>v. v = sy_zero S) (length (a_basis a)) (a_g a),
       self_coords = a_coords a,
       self_connect_flg = (a_coords a \<noteq> None),
       self_norm = a_norm a,
       self_detg = None, self_g_adj = None, self_g_inv = a_g_inv a,
       self_basis = a_basis a, self_r_symbols = a_r_symbols a,
       self_n = length (a_basis a),
       self_g = a_g a, self_g_raw = a_g a,
       self_g_is_numeric = upper_all (sy_is_number S) (length (a_basis a)) (a_g a),
       self_dg = Unset, self_de = Unset, self_e_norm = Unset, self_e_sq_sgn = Unset \<rparr>"

text \<open>\<^verbatim>\<open>if self.coords is not None:\<close> with its body.\<close>

definition init_coords :: "'e sympy \<Rightarrow> 'e metric \<Rightarrow> error + 'e metric" where
  "init_coords S m =
     (if self_coords m \<noteq> None then
        bind_err (derivatives_of_basis S m) (\<lambda>m1.
          if self_norm m1 then
            (if \<not> self_is_ortho m1
             then Inl (ValueError ''Basis normalization only implemented for orthogonal basis'')
             else bind_err (map_err (\<lambda>i. square_root_of_expr S (self_g m1 ! i ! i))
                                    [0..<self_n m1])
                    (\<lambda>en. Inr (m1\<lparr>self_e_norm := Has (Some en)\<rparr>)))
          else Inr (m1\<lparr>self_e_norm := Has None\<rparr>))
      else Inr m)"

text \<open>\<^verbatim>\<open>if self.norm:\<close> with its body.\<close>

definition init_norm :: "'e sympy \<Rightarrow> 'e metric \<Rightarrow> error + 'e metric" where
  "init_norm S m =
     (if self_norm m then
        (if self_is_ortho m then normalize_metric S m
         else Inl (ValueError ''Basis normalization only implemented for orthogonal basis''))
      else Inr m)"

text \<open>\<^verbatim>\<open>if not self.g_is_numeric:\<close> with its body.\<close>

definition init_signature :: "'e sympy \<Rightarrow> 'e metric \<Rightarrow> error + 'e metric" where
  "init_signature S m =
     (if \<not> self_g_is_numeric m then
        bind_err (signature S m) (\<lambda>m1.
          case self_sig m1 of
            STuple p q \<Rightarrow>
              Inr (m1\<lparr>self_e_sq_sgn :=
                     Has (if ((int (self_n m1) * (int (self_n m1) - 1)) div 2 + q) mod 2 = 1
                          then ''-'' else ''+'')\<rparr>)
          | _ \<Rightarrow> Inl (TypeError ''self.sig is not subscriptable''))
      else Inr m)"

definition Metric_init :: "'e sympy \<Rightarrow> 'e init_args \<Rightarrow> error + 'e metric" where
  "Metric_init S a =
     bind_err (init_coords S (init_fields S a)) (\<lambda>m1.
     bind_err (init_norm S m1) (\<lambda>m2. init_signature S m2))"

section \<open>A substrate of monomials\<close>

text \<open>
  A small instance of the substrate, for evaluating the functions above on concrete
  metrics. It tracks the expressions \<open>c \<cdot> x\<^sub>v\<^sup>k \<cdot> w\<close>: a rational coefficient, a power of
  one coordinate symbol, and a product \<open>w\<close> of distinct neighbouring basis and reciprocal
  basis symbols (the empty product for a scalar). \<open>Imag c v k\<close> is the imaginary
  monomial \<open>I \<cdot> c \<cdot> x\<^sub>v\<^sup>k\<close> with \<open>c \<noteq> 0\<close>, a number that is not real when \<open>k = 0\<close>: its
  number test, its sign test (sympy refuses to compare a non-real number with \<open>0\<close>), its
  negation, its absolute value and its square-free factorization are tracked, its sums
  and products are not. Every other expression, a sum of two different monomials for
  one, is \<open>Untracked\<close>. The zero is \<open>Term 0 0 0 []\<close>; \<open>mk\<close> builds the normal form.
  Simplification, expansion and \<^verbatim>\<open>trigsimp\<close> leave a monomial as it is.
\<close>

datatype atom = Basis nat | Recip nat

datatype mexpr = Untracked | Term rat nat int "atom list" | Imag rat nat int

definition mk :: "rat \<Rightarrow> nat \<Rightarrow> int \<Rightarrow> atom list \<Rightarrow> mexpr" where
  "mk c v k u = (if c = 0 then Term 0 0 0 [] else Term c (if k = 0 then 0 else v) k u)"

fun m_add :: "mexpr \<Rightarrow> mexpr \<Rightarrow> mexpr" where
  "m_add (Term a v k u) (Term b w l t) =
     (if a = 0 then mk b w l t
      else if b = 0 then mk a v k u
      else if mk 1 v k u = mk 1 w l t then mk (a + b) v k u
      else Untracked)"
| "m_add _ _ = Untracked"

fun m_neg :: "mexpr \<Rightarrow> mexpr" where
  "m_neg (Term a v k u) = mk (- a) v k u"
| "m_neg (Imag c v k) = Imag (- c) v k"
| "m_neg Untracked = Untracked"

definition m_sub :: "mexpr \<Rightarrow> mexpr \<Rightarrow> mexpr" where
  "m_sub x y = m_add x (m_neg y)"

text \<open>
  Two equal symbols side by side would form a power of a non-commutative symbol, which
  is not tracked.
\<close>

fun m_mul :: "mexpr \<Rightarrow> mexpr \<Rightarrow> mexpr" where
  "m_mul (Term a v k u) (Term b w l t) =
     (if a = 0 \<or> b = 0 then mk 0 0 0 []
      else if u \<noteq> [] \<and> t \<noteq> [] \<and> last u = hd t then Untracked
      else if k \<noteq> 0 \<and> l \<noteq> 0 \<and> v \<noteq> w then Untracked
      else mk (a * b) (if k \<noteq> 0 then v else w) (k + l) (u @ t))"
| "m_mul _ _ = Untracked"

fun m_div :: "mexpr \<Rightarrow> mexpr \<Rightarrow> mexpr" where
  "m_div (Term a v k u) (Term b w l t) =
     (if b = 0 \<or> t \<noteq> [] then Untracked
      else m_mul (Term a v k u) (mk (1 / b) w (- l) []))"
| "m_div _ _ = Untracked"

fun m_pow :: "mexpr \<Rightarrow> rat \<Rightarrow> mexpr" where
  "m_pow (Term a v k u) r =
     (if r = 1 then mk a v k u
      else if a = 1 \<and> u = [] \<and> of_int \<lfloor>r\<rfloor> = r then mk 1 v (k * \<lfloor>r\<rfloor>) []
      else Untracked)"
| "m_pow _ r = Untracked"

fun m_diff :: "mexpr \<Rightarrow> mexpr \<Rightarrow> mexpr" where
  "m_diff (Term a v k u) (Term b w l t) =
     (if b = 1 \<and> l = 1 \<and> t = []
      then (if k \<noteq> 0 \<and> v = w then mk (a * of_int k) v (k - 1) u else mk 0 0 0 [])
      else Untracked)"
| "m_diff _ _ = Untracked"

fun m_is_number :: "mexpr \<Rightarrow> bool" where
  "m_is_number (Term a v k u) = (a = 0 \<or> (k = 0 \<and> u = []))"
| "m_is_number (Imag c v k) = (k = 0)"
| "m_is_number Untracked = False"

fun m_gt0 :: "mexpr \<Rightarrow> error + bool" where
  "m_gt0 (Term a v k u) =
     (if a = 0 \<or> (k = 0 \<and> u = []) then Inr (0 < a)
      else Inl (TypeError ''cannot determine truth value of Relational''))"
| "m_gt0 (Imag c v k) =
     (if k = 0 then Inl (TypeError ''Invalid comparison of non-real number'')
      else Inl (TypeError ''cannot determine truth value of Relational''))"
| "m_gt0 Untracked = Inl (TypeError ''cannot determine truth value of Relational'')"

fun m_sqrt :: "mexpr \<Rightarrow> mexpr" where
  "m_sqrt (Term a v k u) =
     (if a = 0 \<or> (k = 0 \<and> u = [])
      then (case find (\<lambda>r. r * r = a) (map of_nat [0..<17]) of
              Some r \<Rightarrow> mk r 0 0 []
            | None \<Rightarrow> Untracked)
      else Untracked)"
| "m_sqrt _ = Untracked"

fun m_abs :: "mexpr \<Rightarrow> mexpr" where
  "m_abs (Term a v k u) =
     (if a = 0 \<or> (k = 0 \<and> u = []) then mk \<bar>a\<bar> 0 0 [] else Untracked)"
| "m_abs (Imag c v k) = (if k = 0 then mk \<bar>c\<bar> 0 0 [] else Untracked)"
| "m_abs Untracked = Untracked"

fun m_sqf_list :: "mexpr \<Rightarrow> error + (mexpr \<times> (mexpr \<times> int) list)" where
  "m_sqf_list (Term a v k u) =
     (if a \<noteq> 0 \<and> 0 < k \<and> u = []
      then Inr (mk a 0 0 [], [(mk 1 v 1 [], k)])
      else Inr (Untracked, []))"
| "m_sqf_list (Imag c v k) =
     (if c \<noteq> 0 \<and> 0 < k
      then Inr (Imag c 0 0, [(mk 1 v 1 [], k)])
      else Inr (Untracked, []))"
| "m_sqf_list Untracked = Inr (Untracked, [])"

fun m_subs :: "mexpr \<Rightarrow> (mexpr \<times> mexpr) list \<Rightarrow> mexpr" where
  "m_subs (Term a v k u) l =
     (case u of
        [] \<Rightarrow> Term a v k u
      | [s] \<Rightarrow> (case map_of l (Term 1 0 0 [s]) of
                  Some r \<Rightarrow> m_mul (mk a v k []) r
                | None \<Rightarrow> Term a v k u)
      | _ \<Rightarrow> Untracked)"
| "m_subs (Imag c v k) l = Imag c v k"
| "m_subs Untracked l = Untracked"

fun m_is_commutative :: "mexpr \<Rightarrow> bool" where
  "m_is_commutative (Term a v k u) = (a = 0 \<or> u = [])"
| "m_is_commutative _ = True"

fun m_args_cnc :: "mexpr \<Rightarrow> mexpr list \<times> mexpr \<times> mexpr list" where
  "m_args_cnc (Term a v k (s # u)) =
     ([mk a v k []], Term 1 0 0 [s], map (\<lambda>s'. Term 1 0 0 [s']) u)"
| "m_args_cnc _ = ([], Untracked, [])"

definition mono :: "mexpr sympy" where
  "mono =
     \<lparr> sy_zero = Term 0 0 0 [], sy_one = Term 1 0 0 [], sy_half = Term (1 / 2) 0 0 [],
       sy_add = m_add, sy_sub = m_sub, sy_neg = m_neg, sy_mul = m_mul, sy_div = m_div,
       sy_pow = m_pow, sy_diff = m_diff, sy_subs = m_subs,
       sy_is_number = m_is_number, sy_gt0 = m_gt0, sy_sqrt = m_sqrt, sy_abs = m_abs,
       sy_trigsimp = (\<lambda>e. e), sy_sqf_list = m_sqf_list, sy_expand = (\<lambda>e. e),
       sy_add_args = (\<lambda>e. None), sy_is_commutative = m_is_commutative,
       sy_args_cnc = m_args_cnc,
       sy_mul_from_args = foldl m_mul (Term 1 0 0 []),
       sy_inv_simplified = (\<lambda>a. Inr (map (map (\<lambda>v. Untracked)) a)),
       sy_adj_simplified = map (map (\<lambda>v. Untracked)),
       sy_function = (\<lambda>name args. Untracked),
       sy_modes = ModeList [\<lambda>e. e] \<rparr>"

text \<open>Numbers, the coordinate symbol \<open>x\<^sub>v\<close> and the basis symbols, in this substrate.\<close>

definition num :: "rat \<Rightarrow> mexpr" where
  "num c = mk c 0 0 []"

definition var :: "nat \<Rightarrow> mexpr" where
  "var v = Term 1 v 1 []"

definition e_sub :: "nat \<Rightarrow> mexpr" where
  "e_sub i = Term 1 0 0 [Basis i]"

definition e_sup :: "nat \<Rightarrow> mexpr" where
  "e_sup i = Term 1 0 0 [Recip i]"

section \<open>Concrete metrics\<close>

text \<open>
  Two basis vectors, the metric \<open>diag(4, 9)\<close>, coordinates \<open>x\<^sub>0, x\<^sub>1\<close>, normalization
  requested: \<^verbatim>\<open>Metric('e', coords=(x0, x1), g=[4, 9], norm=True)\<close>.
\<close>

definition diag49 :: "mexpr init_args" where
  "diag49 =
     \<lparr> a_basis = [e_sub 0, e_sub 1], a_r_symbols = [e_sup 0, e_sup 1],
       a_g = [[num 4, num 0], [num 0, num 9]], a_g_inv = None,
       a_coords = Some [var 0, var 1], a_norm = True, a_sig = SStr ''e'',
       a_gsym = None, a_Isq = ''-'' \<rparr>"

text \<open>
  Two basis vectors without coordinates, the metric \<open>[[1, a], [a, 1]]\<close> for a symbol
  \<open>a\<close>, and the signature hint \<open>h\<close>.
\<close>

definition sym2 :: "sigv \<Rightarrow> mexpr init_args" where
  "sym2 h =
     \<lparr> a_basis = [e_sub 0, e_sub 1], a_r_symbols = [e_sup 0, e_sup 1],
       a_g = [[num 1, var 0], [var 0, num 1]], a_g_inv = None,
       a_coords = None, a_norm = False, a_sig = h,
       a_gsym = None, a_Isq = ''-'' \<rparr>"

text \<open>The instance that the constructor returns for \<open>diag49\<close>.\<close>

definition diag49_instance :: "mexpr metric" where
  "diag49_instance =
     \<lparr> self_sig = SStr ''e'', self_gsym = None, self_Isq = ''-'', self_is_ortho = True,
       self_coords = Some [var 0, var 1], self_connect_flg = False, self_norm = True,
       self_detg = None, self_g_adj = None, self_g_inv = None,
       self_basis = [e_sub 0, e_sub 1], self_r_symbols = [e_sup 0, e_sup 1], self_n = 2,
       self_g = [[num 4, num 0], [num 0, num 9]],
       self_g_raw = [[num 4, num 0], [num 0, num 9]],
       self_g_is_numeric = True,
       self_dg = Has [[[num 0, num 0], [num 0, num 0]], [[num 0, num 0], [num 0, num 0]]],
       self_de = Has None, self_e_norm = Has (Some [num 2, num 3]), self_e_sq_sgn = Unset \<rparr>"

text \<open>
  The array that \<^verbatim>\<open>derivatives_of_g\<close> builds from the matrix \<open>a\<close>, the coordinates
  \<open>cs\<close> and the dimension \<open>k\<close>.
\<close>

definition dg_of :: "'e sympy \<Rightarrow> 'e list list \<Rightarrow> 'e list \<Rightarrow> nat \<Rightarrow> 'e list list list" where
  "dg_of S a cs k =
     map (\<lambda>i. map (\<lambda>j. map (\<lambda>x_k. sy_diff S (a ! i ! j) x_k) cs) [0..<k]) [0..<k]"

text \<open>
  One basis vector, the coordinate \<open>x\<^sub>0\<close>, the metric \<open>[[x\<^sub>0\<^sup>2]]\<close>, normalization
  requested: \<^verbatim>\<open>Metric('e', coords=(x0,), g=[x0**2], norm=True)\<close>; and the instance the
  constructor returns. The norm is \<open>x\<^sub>0\<close> and the rescaled metric \<open>[[1]]\<close>.
\<close>

definition polar1 :: "mexpr init_args" where
  "polar1 = \<lparr> a_basis = [e_sub 0], a_r_symbols = [e_sup 0],
     a_g = [[Term 1 0 2 []]], a_g_inv = None, a_coords = Some [var 0],
     a_norm = True, a_sig = SStr ''e'', a_gsym = None, a_Isq = ''-'' \<rparr>"

definition polar1_instance :: "mexpr metric" where
  "polar1_instance =
     \<lparr> self_sig = SStr ''e'', self_gsym = None, self_Isq = ''-'', self_is_ortho = True,
       self_coords = Some [var 0], self_connect_flg = True, self_norm = True,
       self_detg = None, self_g_adj = None, self_g_inv = None,
       self_basis = [e_sub 0], self_r_symbols = [e_sup 0], self_n = 1,
       self_g = [[num 1]], self_g_raw = [[Term 1 0 2 []]], self_g_is_numeric = True,
       self_dg = Has [[[Term 2 0 1 []]]], self_de = Has (Some [[Untracked]]),
       self_e_norm = Has (Some [var 0]), self_e_sq_sgn = Unset \<rparr>"

text \<open>
  Two basis vectors, coordinates \<open>x\<^sub>0, x\<^sub>1\<close>, the symmetric metric
  \<open>[[1, x\<^sub>0], [x\<^sub>0, 1]]\<close>; and the instance the constructor returns.
\<close>

definition sheared :: "mexpr init_args" where
  "sheared = \<lparr> a_basis = [e_sub 0, e_sub 1], a_r_symbols = [e_sup 0, e_sup 1],
     a_g = [[num 1, var 0], [var 0, num 1]], a_g_inv = None, a_coords = Some [var 0, var 1],
     a_norm = False, a_sig = SStr ''e'', a_gsym = None, a_Isq = ''-'' \<rparr>"

definition sheared_instance :: "mexpr metric" where
  "sheared_instance =
     \<lparr> self_sig = STuple 2 0, self_gsym = None, self_Isq = ''-'', self_is_ortho = False,
       self_coords = Some [var 0, var 1], self_connect_flg = True, self_norm = False,
       self_detg = None, self_g_adj = None, self_g_inv = None,
       self_basis = [e_sub 0, e_sub 1], self_r_symbols = [e_sup 0, e_sup 1], self_n = 2,
       self_g = [[num 1, var 0], [var 0, num 1]],
       self_g_raw = [[num 1, var 0], [var 0, num 1]], self_g_is_numeric = False,
       self_dg = Has [[[num 0, num 0], [num 1, num 0]], [[num 1, num 0], [num 0, num 0]]],
       self_de = Has (Some [[e_sup 1, num 0], [num 0, num 0]]),
       self_e_norm = Has None, self_e_sq_sgn = Has ''-'' \<rparr>"



section \<open>Reconstruction from a linear expansion\<close>

text \<open>
  The sum of \<open>coefficient * basis\<close> over the pairs that \<^verbatim>\<open>linear_expand\<close> returns, built
  as \<^verbatim>\<open>Simp.apply\<close> and \<^verbatim>\<open>collect\<close> build their sums: from \<^verbatim>\<open>S(0)\<close>, one pair after
  the other.
\<close>

definition recombine :: "'e sympy \<Rightarrow> 'e list \<times> 'e list \<Rightarrow> 'e" where
  "recombine S cb =
     foldl (\<lambda>obj (coef, base). sy_add S obj (sy_mul S coef base)) (sy_zero S)
           (zip (fst cb) (snd cb))"

text \<open>
  The additive terms that the loop of \<^verbatim>\<open>linear_expand\<close> runs over: the arguments of the
  expanded expression when it is a sum, the expanded expression itself otherwise.
\<close>

definition expanded_terms :: "'e sympy \<Rightarrow> 'e \<Rightarrow> 'e list" where
  "expanded_terms S e =
     (case sy_add_args S (sy_expand S e) of
        Some args \<Rightarrow> args
      | None \<Rightarrow> [sy_expand S e])"

text \<open>
  A term the loop splits without loss: it is in expanded form, and when it is not
  commutative, \<^verbatim>\<open>args_cnc\<close> finds one non-commutative factor and no other, and the term
  is the product of its commutative part and that factor.
\<close>

definition term_ok :: "'e sympy \<Rightarrow> 'e \<Rightarrow> bool" where
  "term_ok S t =
     (sy_expand S t = t
      \<and> (sy_is_commutative S t
         \<or> (snd (snd (sy_args_cnc S t)) = []
            \<and> \<not> sy_is_commutative S (fst (snd (sy_args_cnc S t)))
            \<and> sy_mul S (sy_mul_from_args S (fst (sy_args_cnc S t)))
                        (fst (snd (sy_args_cnc S t))) = t)))"

text \<open>
  The state of the loop: as many coefficients as bases, every basis \<^verbatim>\<open>S(1)\<close> or a
  non-commutative factor. \<open>esum\<close> is the sum of the expanded products
  \<open>coefficient * basis\<close>, from an accumulator.
\<close>

definition bases_ok :: "'e sympy \<Rightarrow> 'e list \<times> 'e list \<Rightarrow> bool" where
  "bases_ok S cb =
     (length (fst cb) = length (snd cb)
      \<and> list_all (\<lambda>b. b = sy_one S \<or> \<not> sy_is_commutative S b) (snd cb))"

definition esum :: "'e sympy \<Rightarrow> 'e \<Rightarrow> ('e \<times> 'e) list \<Rightarrow> 'e" where
  "esum S acc ps =
     foldl (\<lambda>obj (coef, base). sy_add S obj (sy_expand S (sy_mul S coef base))) acc ps"

text \<open>
  A second instance of the substrate: the expressions \<open>a + b \<cdot> e\<close> with rational \<open>a\<close>,
  \<open>b\<close> and one basis symbol \<open>e\<close>, as the pair \<open>(a, b)\<close>. Sums are tracked in full; of
  a product the part in \<open>e \<cdot> e\<close> is dropped. A sum with both parts has the two terms
  \<open>a\<close> and \<open>b \<cdot> e\<close>. The operations that \<^verbatim>\<open>linear_expand\<close> and the reconstruction
  never call (division, powers, derivatives, roots, matrices) are placeholders.
\<close>

definition l_mul :: "rat \<times> rat \<Rightarrow> rat \<times> rat \<Rightarrow> rat \<times> rat" where
  "l_mul x y = (fst x * fst y, fst x * snd y + snd x * fst y)"

definition lin1 :: "(rat \<times> rat) sympy" where
  "lin1 =
     \<lparr> sy_zero = (0, 0), sy_one = (1, 0), sy_half = (1 / 2, 0),
       sy_add = (\<lambda>x y. (fst x + fst y, snd x + snd y)),
       sy_sub = (\<lambda>x y. (fst x - fst y, snd x - snd y)),
       sy_neg = (\<lambda>x. (- fst x, - snd x)),
       sy_mul = l_mul,
       sy_div = (\<lambda>x y. x), sy_pow = (\<lambda>x r. x), sy_diff = (\<lambda>x y. (0, 0)),
       sy_subs = (\<lambda>x l. x),
       sy_is_number = (\<lambda>x. snd x = 0),
       sy_gt0 = (\<lambda>x. Inr (0 < fst x)),
       sy_sqrt = (\<lambda>x. x), sy_abs = (\<lambda>x. x), sy_trigsimp = (\<lambda>x. x),
       sy_sqf_list = (\<lambda>x. Inr (x, [])),
       sy_expand = (\<lambda>x. x),
       sy_add_args = (\<lambda>x. if fst x \<noteq> 0 \<and> snd x \<noteq> 0
                             then Some [(fst x, 0), (0, snd x)] else None),
       sy_is_commutative = (\<lambda>x. snd x = 0),
       sy_args_cnc = (\<lambda>x. ([(snd x, 0)], (0, 1), [])),
       sy_mul_from_args = foldl l_mul (1, 0),
       sy_inv_simplified = (\<lambda>a. Inr a), sy_adj_simplified = (\<lambda>a. a),
       sy_function = (\<lambda>name args. (0, 0)),
       sy_modes = ModeList [\<lambda>x. x] \<rparr>"

section \<open>Properties\<close>

subsection \<open>What each stage of the constructor changes\<close>

lemma bind_err_Inr:
  "bind_err r f = Inr y \<Longrightarrow> \<exists>v. r = Inr v \<and> f v = Inr y"
  by (cases r) (simp_all add: bind_err_def)

lemma init_connect_flg_frame:
  assumes "init_connect_flg S m = Inr m'"
  shows "\<exists>f. m' = m\<lparr>self_connect_flg := f\<rparr>"
  using assms by (auto simp: init_connect_flg_def split: attr.splits sum.splits)

lemma derivatives_of_basis_frame:
  assumes "derivatives_of_basis S m = Inr m'"
  shows "\<exists>d f x. m' = m\<lparr>self_dg := Has d, self_connect_flg := f, self_de := Has x\<rparr>
            \<and> (x = None \<longleftrightarrow> \<not> f)"
proof -
  from assms obtain d m1 where d: "derivatives_of_g S m = Inr d"
    and m1: "init_connect_flg S (m\<lparr>self_dg := Has d\<rparr>) = Inr m1"
    and rest: "(if \<not> self_connect_flg m1 then Inr (m1\<lparr>self_de := Has None\<rparr>)
       else
         bind_err (Christoffel_symbols S m1 1) (\<lambda>r.
           case snd r of
             None \<Rightarrow> Inl (TypeError ''NoneType is not subscriptable'')
           | Some dG \<Rightarrow>
               Inr (m1\<lparr>self_de := Has (Some
                     (map (\<lambda>i. map (\<lambda>j.
                        py_sum S (map (\<lambda>(Gam, e__k). sy_mul S Gam e__k)
                                      (zip (dG ! i ! j) (self_r_symbols m1))))
                        [0..<self_n m1]) [0..<self_n m1]))\<rparr>))) = Inr m'"
    unfolding derivatives_of_basis_def by (blast dest: bind_err_Inr)
  from init_connect_flg_frame [OF m1] obtain f where f: "m1 = m\<lparr>self_dg := Has d, self_connect_flg := f\<rparr>"
    by auto
  show ?thesis
  proof (cases f)
    case False
    with rest f show ?thesis by auto
  next
    case True
    with rest f obtain r where "Christoffel_symbols S m1 1 = Inr r" 
      and r: "(case snd r of
             None \<Rightarrow> Inl (TypeError ''NoneType is not subscriptable'')
           | Some dG \<Rightarrow>
               Inr (m1\<lparr>self_de := Has (Some
                     (map (\<lambda>i. map (\<lambda>j.
                        py_sum S (map (\<lambda>(Gam, e__k). sy_mul S Gam e__k)
                                      (zip (dG ! i ! j) (self_r_symbols m1))))
                        [0..<self_n m1]) [0..<self_n m1]))\<rparr>)) = Inr m'"
      by (auto dest!: bind_err_Inr)
    from r obtain dG where "snd r = Some dG" by (cases "snd r") auto
    with r f True show ?thesis by auto
  qed
qed

lemma normalize_metric_frame:
  assumes "normalize_metric S m = Inr m'"
  shows "(self_de m = Has None \<and> m' = m)
       \<or> (\<exists>d d' g'. self_de m = Has (Some d) \<and> m' = m\<lparr>self_de := Has (Some d'), self_g := g'\<rparr>)"
  using assms
  by (auto simp: normalize_metric_def Let_def split: attr.splits option.splits)

lemma signature_frame:
  assumes "signature S m = Inr m'"
  shows "\<exists>p q. m' = m\<lparr>self_sig := STuple p q\<rparr>"
  using assms
  by (auto simp: signature_def signature_from_hint_def split: if_splits sum.splits sigv.splits prod.splits)

lemma init_coords_frame:
  assumes "init_coords S m = Inr m'"
  shows "(self_coords m = None \<and> m' = m)
       \<or> (\<exists>d f x en. self_coords m \<noteq> None \<and> (x = None \<longleftrightarrow> \<not> f) \<and>
             m' = m\<lparr>self_dg := Has d, self_connect_flg := f, self_de := Has x,
                    self_e_norm := Has en\<rparr>)"
proof (cases "self_coords m")
  case None
  with assms show ?thesis by (simp add: init_coords_def)
next
  case (Some cs)
  with assms obtain m1 where m1: "derivatives_of_basis S m = Inr m1"
    and rest: "(if self_norm m1 then
            (if \<not> self_is_ortho m1
             then Inl (ValueError ''Basis normalization only implemented for orthogonal basis'')
             else bind_err (map_err (\<lambda>i. square_root_of_expr S (self_g m1 ! i ! i))
                                    [0..<self_n m1])
                    (\<lambda>en. Inr (m1\<lparr>self_e_norm := Has (Some en)\<rparr>)))
          else Inr (m1\<lparr>self_e_norm := Has None\<rparr>)) = Inr m'"
    by (auto simp: init_coords_def dest!: bind_err_Inr)
  from derivatives_of_basis_frame [OF m1] obtain d f x where
    x: "m1 = m\<lparr>self_dg := Has d, self_connect_flg := f, self_de := Has x\<rparr>" "x = None \<longleftrightarrow> \<not> f"
    by blast
  from rest obtain en where "m' = m1\<lparr>self_e_norm := Has en\<rparr>"
    by (auto split: if_splits dest!: bind_err_Inr)
  with x Some show ?thesis by auto
qed

lemma init_norm_frame:
  assumes "init_norm S m = Inr m'"
  shows "m' = m \<or> (\<exists>d d' g'. self_norm m \<and> self_de m = Has (Some d) \<and> m' = m\<lparr>self_de := Has (Some d'), self_g := g'\<rparr>)"
  using assms by (auto simp: init_norm_def split: if_splits dest!: normalize_metric_frame)

lemma init_signature_frame:
  assumes "init_signature S m = Inr m'"
  shows "(self_g_is_numeric m \<and> m' = m)
       \<or> (\<exists>p q s. \<not> self_g_is_numeric m \<and> m' = m\<lparr>self_sig := STuple p q, self_e_sq_sgn := Has s\<rparr>)"
proof (cases "self_g_is_numeric m")
  case True
  with assms show ?thesis by (simp add: init_signature_def)
next
  case False
  with assms obtain m1 where m1: "signature S m = Inr m1"
    and rest: "(case self_sig m1 of
            STuple p q \<Rightarrow>
              Inr (m1\<lparr>self_e_sq_sgn :=
                     Has (if ((int (self_n m1) * (int (self_n m1) - 1)) div 2 + q) mod 2 = 1
                          then ''-'' else ''+'')\<rparr>)
          | _ \<Rightarrow> Inl (TypeError ''self.sig is not subscriptable'')) = Inr m'"
    by (auto simp: init_signature_def dest!: bind_err_Inr)
  from signature_frame [OF m1] obtain p q where "m1 = m\<lparr>self_sig := STuple p q\<rparr>" by blast
  with rest False show ?thesis by auto
qed

lemma Metric_init_stages:
  assumes "Metric_init S a = Inr m"
  obtains m1 m2 where "init_coords S (init_fields S a) = Inr m1"
    and "init_norm S m1 = Inr m2" and "init_signature S m2 = Inr m"
  using assms unfolding Metric_init_def by (blast dest: bind_err_Inr)

lemma diag49_constructed: "Metric_init mono diag49 = Inr diag49_instance"
  by code_simp

lemma polar1_constructed: "Metric_init mono polar1 = Inr polar1_instance"
  by code_simp

lemma sheared_constructed: "Metric_init mono sheared = Inr sheared_instance"
  by code_simp

lemma constructed_inputs:
  assumes "Metric_init S a = Inr m"
  shows "self_g_raw m = a_g a \<and> self_n m = length (a_basis a) \<and> self_coords m = a_coords a"
proof -
  from assms obtain m1 m2 where s1: "init_coords S (init_fields S a) = Inr m1"
    and s2: "init_norm S m1 = Inr m2" and s3: "init_signature S m2 = Inr m"
    by (rule Metric_init_stages)
  have "self_g_raw (init_fields S a) = a_g a" "self_n (init_fields S a) = length (a_basis a)"
    "self_coords (init_fields S a) = a_coords a"
    by (simp_all add: init_fields_def)
  with init_coords_frame [OF s1]
  have "self_g_raw m1 = a_g a \<and> self_n m1 = length (a_basis a) \<and> self_coords m1 = a_coords a"
    by auto
  with init_norm_frame [OF s2]
  have "self_g_raw m2 = a_g a \<and> self_n m2 = length (a_basis a) \<and> self_coords m2 = a_coords a"
    by auto
  with init_signature_frame [OF s3] show ?thesis by auto
qed

subsection \<open>Signature from the hint\<close>

text \<open>
  The cases of the hint that \<^verbatim>\<open>signature\<close> resolves as C8 says. When the resolver falls
  through to the hint (the metric is not orthogonal, or the count of numeric diagonal
  entries stopped before \<open>n\<close>): an integer hint \<open>k\<close> with \<open>0 \<le> k \<le> n\<close> gives the pair
  \<open>(k, n - k)\<close>; an integer \<open>k > n\<close> raises the range error; \<^verbatim>\<open>'e'\<close> gives \<open>(n, 0)\<close>,
  \<^verbatim>\<open>'m+'\<close> gives \<open>(n - 1, 1)\<close>, \<^verbatim>\<open>'m-'\<close> gives \<open>(1, n - 1)\<close>; any other string, and
  any value that is neither an integer nor a string, raises the invalid-signature error.
\<close>

lemma signature_from_hint_cases:
  assumes "\<not> self_is_ortho m \<or>
     (\<exists>p q. count_pq S (self_g m) [0..<self_n m] 0 0 = Inr (p, q) \<and> p + q \<noteq> int (self_n m))"
  shows "(\<forall>k. self_sig m = SInt k \<and> 0 \<le> k \<longrightarrow>
            signature S m =
              (if k \<le> int (self_n m)
               then Inr (m\<lparr>self_sig := STuple k (int (self_n m) - k)\<rparr>)
               else Inl (ValueError ''self.sig > self.n, not an allowed hint'')))
       \<and> (self_sig m = SStr ''e'' \<longrightarrow>
            signature S m = Inr (m\<lparr>self_sig := STuple (int (self_n m)) 0\<rparr>))
       \<and> (self_sig m = SStr ''m+'' \<longrightarrow>
            signature S m = Inr (m\<lparr>self_sig := STuple (int (self_n m) - 1) 1\<rparr>))
       \<and> (self_sig m = SStr ''m-'' \<longrightarrow>
            signature S m = Inr (m\<lparr>self_sig := STuple 1 (int (self_n m) - 1)\<rparr>))
       \<and> (\<forall>s. self_sig m = SStr s \<and> s \<noteq> ''e'' \<and> s \<noteq> ''m+'' \<and> s \<noteq> ''m-'' \<longrightarrow>
            signature S m = Inl (ValueError ''self.sig is not an allowed hint''))
       \<and> ((\<forall>k. self_sig m \<noteq> SInt k) \<and> (\<forall>s. self_sig m \<noteq> SStr s) \<longrightarrow>
            signature S m = Inl (ValueError ''is not allowed value for self.sig''))"
proof -
  have "signature S m = signature_from_hint m"
    using assms by (auto simp: signature_def)
  then show ?thesis
    by (auto simp: signature_from_hint_def split: sigv.splits)
qed

lemma sym2_fields:
  "self_is_ortho (init_fields mono (sym2 h)) = False"
  "self_n (init_fields mono (sym2 h)) = 2"
  "self_sig (init_fields mono (sym2 h)) = h"
  by (simp_all add: init_fields_def sym2_def upper_all_def mono_def var_def num_def mk_def)

lemma signature_from_hint_cases_evaluated:
  "\<not> self_is_ortho (init_fields mono (sym2 (SInt 1)))
   \<and> signature mono (init_fields mono (sym2 (SInt 1)))
       = Inr (init_fields mono (sym2 (SInt 1))\<lparr>self_sig := STuple 1 1\<rparr>)
   \<and> signature mono (init_fields mono (sym2 (SInt 5)))
       = Inl (ValueError ''self.sig > self.n, not an allowed hint'')
   \<and> signature mono (init_fields mono (sym2 (SStr ''e'')))
       = Inr (init_fields mono (sym2 (SStr ''e''))\<lparr>self_sig := STuple 2 0\<rparr>)
   \<and> signature mono (init_fields mono (sym2 (SStr ''m+'')))
       = Inr (init_fields mono (sym2 (SStr ''m+''))\<lparr>self_sig := STuple 1 1\<rparr>)
   \<and> signature mono (init_fields mono (sym2 (SStr ''m-'')))
       = Inr (init_fields mono (sym2 (SStr ''m-''))\<lparr>self_sig := STuple 1 1\<rparr>)
   \<and> signature mono (init_fields mono (sym2 (SStr ''x'')))
       = Inl (ValueError ''self.sig is not an allowed hint'')
   \<and> signature mono (init_fields mono (sym2 SOther))
       = Inl (ValueError ''is not allowed value for self.sig'')"
  using signature_from_hint_cases [of "init_fields mono (sym2 (SInt 1))" mono]
    signature_from_hint_cases [of "init_fields mono (sym2 (SInt 5))" mono]
    signature_from_hint_cases [of "init_fields mono (sym2 (SStr ''e''))" mono]
    signature_from_hint_cases [of "init_fields mono (sym2 (SStr ''m+''))" mono]
    signature_from_hint_cases [of "init_fields mono (sym2 (SStr ''m-''))" mono]
    signature_from_hint_cases [of "init_fields mono (sym2 (SStr ''x''))" mono]
    signature_from_hint_cases [of "init_fields mono (sym2 SOther)" mono]
  by (simp add: sym2_fields)

text \<open>
  C8 says that every hint other than an integer \<open>0 \<le> k \<le> n\<close> and the three strings
  raises. The code tests \<^verbatim>\<open>self.sig <= self.n\<close> and nothing else: when the resolver
  falls through to a negative integer hint \<open>k\<close>, it raises nothing and stores the pair
  \<open>(k, n - k)\<close>, which counts no directions.
\<close>

theorem signature_negative_hint_stored:
  assumes "\<not> self_is_ortho m \<or>
     (\<exists>p q. count_pq S (self_g m) [0..<self_n m] 0 0 = Inr (p, q) \<and> p + q \<noteq> int (self_n m))"
    and "self_sig m = SInt k" and "k < 0"
  shows "signature S m = Inr (m\<lparr>self_sig := STuple k (int (self_n m) - k)\<rparr>)"
proof -
  have "signature S m = signature_from_hint m"
    using assms(1) by (auto simp: signature_def)
  with assms(2,3) show ?thesis
    by (simp add: signature_from_hint_def)
qed

theorem signature_negative_hint_stored_witness:
  "\<not> self_is_ortho (init_fields mono (sym2 (SInt (- 1))))
   \<and> self_n (init_fields mono (sym2 (SInt (- 1)))) = 2
   \<and> self_sig (init_fields mono (sym2 (SInt (- 1)))) = SInt (- 1)
   \<and> signature mono (init_fields mono (sym2 (SInt (- 1))))
       = Inr (init_fields mono (sym2 (SInt (- 1)))\<lparr>self_sig := STuple (- 1) 3\<rparr>)"
  using signature_negative_hint_stored [of "init_fields mono (sym2 (SInt (- 1)))" mono "- 1"]
  by (simp add: sym2_fields)

subsection \<open>Normalization without coordinates\<close>

text \<open>
  C10. With \<^verbatim>\<open>norm=True\<close>, \<^verbatim>\<open>coords=None\<close> and a metric that the constructor finds
  orthogonal, the constructor ends in the \<^verbatim>\<open>AttributeError\<close> of reading \<^verbatim>\<open>self.de\<close>,
  which only \<^verbatim>\<open>derivatives_of_basis\<close> assigns: no instance is returned, and the error
  is not the \<^verbatim>\<open>ValueError\<close> of the normalization check.
\<close>

theorem norm_without_coords_crashes:
  assumes "a_coords a = None" and "a_norm a"
    and "upper_all (\<lambda>v. v = sy_zero S) (length (a_basis a)) (a_g a)"
  shows "Metric_init S a = Inl (AttributeError ''de'')"
  using assms
  by (simp add: Metric_init_def init_coords_def init_norm_def init_fields_def bind_err_def
      normalize_metric_def)

lemma upper_diag49:
  "upper_all (\<lambda>v. v = sy_zero mono) (length (a_basis diag49)) (a_g diag49)"
  by (simp add: upper_all_def diag49_def mono_def num_def mk_def)

theorem norm_without_coords_crashes_witness:
  "a_coords (diag49\<lparr>a_coords := None\<rparr>) = None \<and> a_norm (diag49\<lparr>a_coords := None\<rparr>)
   \<and> upper_all (\<lambda>v. v = sy_zero mono) (length (a_basis (diag49\<lparr>a_coords := None\<rparr>)))
         (a_g (diag49\<lparr>a_coords := None\<rparr>))
   \<and> Metric_init mono (diag49\<lparr>a_coords := None\<rparr>) = Inl (AttributeError ''de'')"
  using norm_without_coords_crashes [of "diag49\<lparr>a_coords := None\<rparr>" mono] upper_diag49
  by (simp add: diag49_def)

subsection \<open>Numeric metrics keep the hint\<close>

text \<open>
  C9. The constructor calls \<^verbatim>\<open>signature()\<close> only under \<^verbatim>\<open>if not self.g_is_numeric\<close>. So
  for every instance it returns with the metric classified numeric (every entry above
  the diagonal is a number), \<^verbatim>\<open>self.sig\<close> is still the hint that was passed in, and
  the sign \<^verbatim>\<open>e_sq_sgn\<close> of that block was never assigned.
\<close>

theorem numeric_metric_keeps_hint:
  assumes "Metric_init S a = Inr m" and "self_g_is_numeric m"
  shows "self_sig m = a_sig a \<and> self_e_sq_sgn m = Unset
       \<and> self_g_is_numeric m = upper_all (sy_is_number S) (length (a_basis a)) (a_g a)"
proof -
  from assms(1) obtain m1 m2 where s1: "init_coords S (init_fields S a) = Inr m1"
    and s2: "init_norm S m1 = Inr m2" and s3: "init_signature S m2 = Inr m"
    by (rule Metric_init_stages)
  have f0: "self_sig (init_fields S a) = a_sig a" "self_e_sq_sgn (init_fields S a) = Unset"
    "self_g_is_numeric (init_fields S a) = upper_all (sy_is_number S) (length (a_basis a)) (a_g a)"
    by (simp_all add: init_fields_def)
  from init_coords_frame [OF s1] f0
  have f1: "self_sig m1 = a_sig a" "self_e_sq_sgn m1 = Unset"
    "self_g_is_numeric m1 = upper_all (sy_is_number S) (length (a_basis a)) (a_g a)"
    by auto
  from init_norm_frame [OF s2] f1
  have f2: "self_sig m2 = a_sig a" "self_e_sq_sgn m2 = Unset"
    "self_g_is_numeric m2 = upper_all (sy_is_number S) (length (a_basis a)) (a_g a)"
    by auto
  from init_signature_frame [OF s3] assms(2) have "m = m2" by auto
  with f2 show ?thesis by simp
qed

theorem numeric_metric_keeps_hint_witness:
  "Metric_init mono diag49 = Inr diag49_instance \<and> self_g_is_numeric diag49_instance
   \<and> self_sig diag49_instance = SStr ''e'' \<and> self_e_sq_sgn diag49_instance = Unset"
  using numeric_metric_keeps_hint [of mono diag49 diag49_instance] diag49_constructed
  by (simp add: diag49_instance_def diag49_def)

subsection \<open>Flat metrics\<close>

lemma scan_k_all_zero:
  assumes "scan_k S row ks = Inr b" and "\<forall>k \<in> set ks. k < length row \<longrightarrow> row ! k = sy_zero S"
  shows "\<not> b"
  using assms by (induction ks) (auto split: if_splits)

lemma scan_ij_all_zero:
  assumes "scan_ij S d k ps flg = Inr b"
    and "\<forall>(i, j) \<in> set ps. \<forall>c < length (d ! i ! j). d ! i ! j ! c = sy_zero S"
  shows "b = flg"
  using assms
proof (induction ps arbitrary: flg)
  case Nil
  then show ?case by simp
next
  case (Cons p ps)
  obtain i j where p: "p = (i, j)" by (cases p)
  from Cons.prems(1) p obtain hit where hit: "scan_k S (d ! i ! j) [0..<k] = Inr hit"
    and rest: "scan_ij S d k ps (flg \<or> hit) = Inr b"
    by (auto split: if_splits sum.splits)
  from Cons.prems(2) p have "\<forall>c \<in> set [0..<k]. c < length (d ! i ! j) \<longrightarrow> d ! i ! j ! c = sy_zero S"
    by auto
  from scan_k_all_zero [OF hit this] have "\<not> hit" .
  with Cons.IH [OF rest] Cons.prems(2) show ?case by auto
qed

text \<open>
  A constructor call with coordinates whose metric argument has only zero partial
  derivatives ends with the connection flag false and \<^verbatim>\<open>self.de = None\<close>.
\<close>

lemma flat_argument_has_no_connection:
  assumes "Metric_init S a = Inr m" and "a_coords a = Some cs"
    and "\<forall>i < length (a_basis a). \<forall>j < length (a_basis a). \<forall>x \<in> set cs.
           sy_diff S (a_g a ! i ! j) x = sy_zero S"
  shows "\<not> self_connect_flg m \<and> self_de m = Has None"
proof -
  let ?n = "length (a_basis a)"
  let ?m0 = "init_fields S a"
  from assms(1) obtain m1 m2 where s1: "init_coords S ?m0 = Inr m1"
    and s2: "init_norm S m1 = Inr m2" and s3: "init_signature S m2 = Inr m"
    by (rule Metric_init_stages)
  have c0: "self_coords ?m0 = Some cs" "self_n ?m0 = ?n" "self_g ?m0 = a_g a"
    using assms(2) by (simp_all add: init_fields_def)
  from s1 c0 obtain mb where mb: "derivatives_of_basis S ?m0 = Inr mb"
    by (auto simp: init_coords_def dest!: bind_err_Inr)
  let ?d = "map (\<lambda>i. map (\<lambda>j. map (\<lambda>x_k. sy_diff S (a_g a ! i ! j) x_k) cs) [0..<?n]) [0..<?n]"
  have d: "derivatives_of_g S ?m0 = Inr ?d"
    using c0 by (simp add: derivatives_of_g_def)
  from mb d obtain mc where mc: "init_connect_flg S (?m0\<lparr>self_dg := Has ?d\<rparr>) = Inr mc"
    by (auto simp: derivatives_of_basis_def dest!: bind_err_Inr)
  then obtain flg where flg: "scan_ij S ?d ?n (List.product [0..<?n] [0..<?n]) False = Inr flg"
    and mc_eq: "mc = ?m0\<lparr>self_dg := Has ?d, self_connect_flg := flg\<rparr>"
    using c0 by (auto simp: init_connect_flg_def split: sum.splits)
  have "\<forall>(i, j) \<in> set (List.product [0..<?n] [0..<?n]). \<forall>c < length (?d ! i ! j). ?d ! i ! j ! c = sy_zero S"
    using assms(3) by auto
  from scan_ij_all_zero [OF flg this] have "\<not> flg" by simp
  with mb d mc mc_eq have mb_eq: "mb = mc\<lparr>self_de := Has None\<rparr>"
    by (auto simp: derivatives_of_basis_def bind_err_def)
  from s1 c0 mb obtain en where m1: "m1 = mb\<lparr>self_e_norm := Has en\<rparr>"
    by (auto simp: init_coords_def bind_err_def split: if_splits sum.splits)
  have p1: "\<not> self_connect_flg m1" "self_de m1 = Has None"
    using m1 mb_eq mc_eq \<open>\<not> flg\<close> by simp_all
  from init_norm_frame [OF s2] p1 have "m2 = m1" by auto
  with init_signature_frame [OF s3] p1 show ?thesis by auto
qed

text \<open>
  C3, as amended. For every instance constructed with coordinates, if every partial
  derivative of every entry of the metric as it was built, \<^verbatim>\<open>self.g_raw\<close>, is zero, then
  the connection flag is false and \<^verbatim>\<open>self.de\<close> is \<^verbatim>\<open>None\<close>, not an array of zeros. The
  flag is computed from the derivatives taken before normalization rescales \<^verbatim>\<open>self.g\<close>.
\<close>

theorem flat_raw_metric_has_no_connection:
  assumes "Metric_init S a = Inr m" and "self_coords m = Some cs"
    and "\<forall>i < self_n m. \<forall>j < self_n m. \<forall>x \<in> set cs.
           sy_diff S (self_g_raw m ! i ! j) x = sy_zero S"
  shows "\<not> self_connect_flg m \<and> self_de m = Has None"
proof -
  from constructed_inputs [OF assms(1)]
  have "self_g_raw m = a_g a" "self_n m = length (a_basis a)" "self_coords m = a_coords a"
    by simp_all
  with assms(2,3) have "a_coords a = Some cs"
    "\<forall>i < length (a_basis a). \<forall>j < length (a_basis a). \<forall>x \<in> set cs.
           sy_diff S (a_g a ! i ! j) x = sy_zero S"
    by simp_all
  with assms(1) show ?thesis by (rule flat_argument_has_no_connection)
qed

theorem flat_raw_metric_has_no_connection_witness:
  "Metric_init mono diag49 = Inr diag49_instance
   \<and> self_coords diag49_instance = Some [var 0, var 1]
   \<and> self_g_raw diag49_instance = [[num 4, num 0], [num 0, num 9]]
   \<and> \<not> self_connect_flg diag49_instance \<and> self_de diag49_instance = Has None"
proof -
  have c: "self_coords diag49_instance = Some [var 0, var 1]"
    "self_g_raw diag49_instance = [[num 4, num 0], [num 0, num 9]]"
    by (simp_all add: diag49_instance_def)
  have "\<forall>i < self_n diag49_instance. \<forall>j < self_n diag49_instance. \<forall>x \<in> set [var 0, var 1].
           sy_diff mono (self_g_raw diag49_instance ! i ! j) x = sy_zero mono"
    by (simp add: diag49_instance_def mono_def var_def num_def mk_def numeral_2_eq_2 less_Suc_eq)
  from flat_raw_metric_has_no_connection [OF diag49_constructed c(1) this]
    diag49_constructed c
  show ?thesis by simp
qed

text \<open>
  For the working metric \<^verbatim>\<open>self.g\<close> the statement fails: with \<open>g = [[x\<^sub>0\<^sup>2]]\<close> and
  normalization, the instance has \<^verbatim>\<open>self.g = [[1]]\<close>, every entry independent of the
  coordinate, and yet the connection flag is true and \<^verbatim>\<open>self.de\<close> is an array.
\<close>

theorem flat_working_metric_counterexample:
  "Metric_init mono polar1 = Inr polar1_instance
   \<and> self_coords polar1_instance = Some [var 0] \<and> self_n polar1_instance = 1
   \<and> self_g polar1_instance = [[num 1]]
   \<and> sy_diff mono (self_g polar1_instance ! 0 ! 0) (var 0) = sy_zero mono
   \<and> self_connect_flg polar1_instance
   \<and> self_de polar1_instance \<noteq> Has None"
proof -
  have "sy_diff mono (self_g polar1_instance ! 0 ! 0) (var 0) = sy_zero mono"
    by code_simp
  with polar1_constructed show ?thesis
    by (simp add: polar1_instance_def)
qed

text \<open>
  C4 says that a constructor call with \<^verbatim>\<open>norm=True\<close> on a flat metric still rescales the
  metric tensor. The code does not: \<^verbatim>\<open>normalize_metric\<close> returns at its first statement
  when \<^verbatim>\<open>self.de\<close> is \<^verbatim>\<open>None\<close>, before the loop under the comment
  \<^verbatim>\<open># Normalize metric tensor\<close>, and the constructor rescales nothing itself. Whenever
  the connection flag of a constructed instance is false, \<^verbatim>\<open>self.g\<close> is the metric that
  was passed in.
\<close>

theorem flat_normalization_leaves_metric:
  assumes "Metric_init S a = Inr m" and "a_norm a" and "a_coords a \<noteq> None"
    and "\<not> self_connect_flg m"
  shows "self_g m = a_g a \<and> self_de m = Has None"
proof -
  from assms(1) obtain m1 m2 where s1: "init_coords S (init_fields S a) = Inr m1"
    and s2: "init_norm S m1 = Inr m2" and s3: "init_signature S m2 = Inr m"
    by (rule Metric_init_stages)
  have c0: "self_coords (init_fields S a) \<noteq> None" "self_g (init_fields S a) = a_g a"
    using assms(3) by (simp_all add: init_fields_def)
  from init_coords_frame [OF s1] c0
  have m1: "self_g m1 = a_g a"
    "\<exists>x. self_de m1 = Has x \<and> (x = None \<longleftrightarrow> \<not> self_connect_flg m1)"
    by auto
  from init_norm_frame [OF s2] have "self_connect_flg m2 = self_connect_flg m1" by auto
  moreover from init_signature_frame [OF s3]
  have m: "self_connect_flg m = self_connect_flg m2" "self_g m = self_g m2"
    "self_de m = self_de m2"
    by auto
  ultimately have "\<not> self_connect_flg m1" using assms(4) by simp
  with m1(2) have de1: "self_de m1 = Has None" by auto
  with init_norm_frame [OF s2] have "m2 = m1" by auto
  with m m1(1) de1 show ?thesis by simp
qed

text \<open>
  For \<open>diag(4, 9)\<close> the norms \<open>2\<close> and \<open>3\<close> are computed and stored, and the metric
  stays \<open>diag(4, 9)\<close>; the rescaled metric would be the identity.
\<close>

theorem flat_normalization_leaves_metric_witness:
  "Metric_init mono diag49 = Inr diag49_instance \<and> a_norm diag49 \<and> a_coords diag49 \<noteq> None
   \<and> \<not> self_connect_flg diag49_instance
   \<and> self_e_norm diag49_instance = Has (Some [num 2, num 3])
   \<and> self_g diag49_instance = [[num 4, num 0], [num 0, num 9]]"
  using flat_normalization_leaves_metric [of mono diag49 diag49_instance] diag49_constructed
  by (simp add: diag49_def diag49_instance_def)

subsection \<open>The inverse of an orthogonal metric\<close>

text \<open>
  C2 says that \<^verbatim>\<open>inverse_metric()\<close> on an orthogonal metric succeeds and leaves the
  diagonal matrix of the reciprocals \<open>1/g[i,i]\<close> in \<^verbatim>\<open>g_inv\<close>. The code writes
  \<^verbatim>\<open>self.g(i,i)\<close> where it means \<^verbatim>\<open>self.g[i,i]\<close>: for every orthogonal instance with at
  least one basis vector and no inverse stored yet, the call raises \<^verbatim>\<open>TypeError\<close> at the
  first diagonal entry.
\<close>

theorem inverse_metric_orthogonal_raises:
  assumes "self_is_ortho m" and "self_g_inv m = None" and "0 < self_n m"
  shows "inverse_metric S m = Inl (TypeError ''Matrix object is not callable'')"
  using assms by (simp add: inverse_metric_def)

theorem inverse_metric_orthogonal_raises_witness:
  "self_is_ortho diag49_instance \<and> self_g_inv diag49_instance = None
   \<and> 0 < self_n diag49_instance
   \<and> inverse_metric mono diag49_instance = Inl (TypeError ''Matrix object is not callable'')"
  using inverse_metric_orthogonal_raises [of diag49_instance mono]
  by (simp add: diag49_instance_def)

subsection \<open>Square roots\<close>






subsection \<open>Christoffel symbols of the first kind\<close>

lemma dg_in_range_dg_of:
  assumes "dg_in_range (dg_of S a cs k) k" and "0 < k"
  shows "k \<le> length cs"
proof -
  from assms have "list_all (\<lambda>c. c < length (dg_of S a cs k ! 0 ! 0)) [0..<k]"
    by (auto simp: dg_in_range_def list_all_iff)
  moreover have "length (dg_of S a cs k ! 0 ! 0) = length cs"
    using assms(2) by (simp add: dg_of_def)
  ultimately have "\<forall>c < k. c < length cs" by (simp add: list_all_iff)
  then show ?thesis by (meson not_le_imp_less order_less_irrefl)
qed

lemma constructed_connected:
  assumes "Metric_init S a = Inr m" and "self_connect_flg m"
  shows "\<exists>cs. a_coords a = Some cs \<and> self_coords m = Some cs
           \<and> self_n m = length (a_basis a) \<and> self_g_raw m = a_g a
           \<and> self_dg m = Has (dg_of S (a_g a) cs (length (a_basis a)))
           \<and> dg_in_range (dg_of S (a_g a) cs (length (a_basis a))) (length (a_basis a))"
proof -
  let ?n = "length (a_basis a)"
  let ?m0 = "init_fields S a"
  from assms(1) obtain m1 m2 where s1: "init_coords S ?m0 = Inr m1"
    and s2: "init_norm S m1 = Inr m2" and s3: "init_signature S m2 = Inr m"
    by (rule Metric_init_stages)
  have keep: "self_connect_flg m = self_connect_flg m1" "self_dg m = self_dg m1"
    "self_coords m = self_coords m1" "self_n m = self_n m1" "self_g_raw m = self_g_raw m1"
    using init_norm_frame [OF s2] init_signature_frame [OF s3] by auto
  have f0: "self_coords ?m0 = a_coords a" "self_n ?m0 = ?n" "self_g ?m0 = a_g a"
    "self_g_raw ?m0 = a_g a" "self_connect_flg ?m0 = (a_coords a \<noteq> None)"
    by (simp_all add: init_fields_def)
  show ?thesis
  proof (cases "a_coords a")
    case None
    with s1 f0 have "m1 = ?m0" by (simp add: init_coords_def)
    with keep f0 None assms(2) show ?thesis by simp
  next
    case (Some cs)
    with s1 f0 obtain mb where mb: "derivatives_of_basis S ?m0 = Inr mb"
      by (auto simp: init_coords_def dest!: bind_err_Inr)
    have d: "derivatives_of_g S ?m0 = Inr (dg_of S (a_g a) cs ?n)"
      using f0 Some by (simp add: derivatives_of_g_def dg_of_def)
    let ?d = "dg_of S (a_g a) cs ?n"
    from mb d obtain mc where mc: "init_connect_flg S (?m0\<lparr>self_dg := Has ?d\<rparr>) = Inr mc"
      and rest: "(if \<not> self_connect_flg mc then Inr (mc\<lparr>self_de := Has None\<rparr>)
       else
         bind_err (Christoffel_symbols S mc 1) (\<lambda>r.
           case snd r of
             None \<Rightarrow> Inl (TypeError ''NoneType is not subscriptable'')
           | Some dG \<Rightarrow>
               Inr (mc\<lparr>self_de := Has (Some
                     (map (\<lambda>i. map (\<lambda>j.
                        py_sum S (map (\<lambda>(Gam, e__k). sy_mul S Gam e__k)
                                      (zip (dG ! i ! j) (self_r_symbols mc))))
                        [0..<self_n mc]) [0..<self_n mc]))\<rparr>))) = Inr mb"
      by (auto simp: derivatives_of_basis_def dest!: bind_err_Inr)
    from init_connect_flg_frame [OF mc] obtain f
      where mc_eq: "mc = ?m0\<lparr>self_dg := Has ?d, self_connect_flg := f\<rparr>" by auto
    from rest obtain x where mb_eq: "mb = mc\<lparr>self_de := Has x\<rparr>"
      by (auto split: if_splits option.splits dest!: bind_err_Inr)
    have mbf: "self_connect_flg mb = f"
      "self_dg mb = Has ?d" "self_coords mb = Some cs" "self_n mb = ?n" "self_g_raw mb = a_g a"
      using mb_eq mc_eq f0 Some by simp_all
    from s1 f0 Some mb obtain en where m1: "m1 = mb\<lparr>self_e_norm := Has en\<rparr>"
      by (auto simp: init_coords_def bind_err_def split: if_splits sum.splits)
    with keep mbf assms(2) have f: "f" by simp
    with rest mc_eq obtain r where "Christoffel_symbols S mc 1 = Inr r"
      by (auto dest!: bind_err_Inr)
    with f mc_eq f0 have "dg_in_range ?d ?n"
      by (auto simp: Christoffel_symbols_def Christoffel_first_def split: if_splits sum.splits)
    with keep m1 mbf Some show ?thesis by simp
  qed
qed

lemma dg_of_nth:
  assumes "i < k" and "j < k" and "c < length cs"
  shows "dg_of S a cs k ! i ! j ! c = sy_diff S (a ! i ! j) (cs ! c)"
  using assms by (simp add: dg_of_def)

text \<open>
  C1, as amended. For every constructed instance whose connection flag is true,
  \<^verbatim>\<open>Christoffel_symbols(mode=1)\<close> returns an \<open>n \<times> n \<times> n\<close> array whose entry
  \<open>(i, j, k)\<close> is the simplifier applied to
  \<open>half * (dg[j][k][i] + dg[i][k][j] - dg[i][j][k])\<close>, where \<open>dg[i][j][k]\<close> is the
  partial derivative with respect to coordinate \<open>k\<close> of the entry \<open>(i, j)\<close> of the metric
  as it was built, \<^verbatim>\<open>self.g_raw\<close>: the constructor fills \<^verbatim>\<open>self.dg\<close> before normalization
  rescales \<^verbatim>\<open>self.g\<close>, and nothing recomputes it.
\<close>

theorem Christoffel_first_kind:
  assumes "Metric_init S a = Inr m" and "self_connect_flg m"
  shows "\<exists>cs G. self_coords m = Some cs \<and> self_n m \<le> length cs
     \<and> Christoffel_symbols S m 1 = Inr (m, Some G) \<and> length G = self_n m
     \<and> (\<forall>i < self_n m. length (G ! i) = self_n m
        \<and> (\<forall>j < self_n m. length (G ! i ! j) = self_n m
           \<and> (\<forall>k < self_n m.
                G ! i ! j ! k =
                  Simp_apply S (sy_mul S (sy_half S)
                    (sy_sub S
                       (sy_add S (sy_diff S (self_g_raw m ! j ! k) (cs ! i))
                                 (sy_diff S (self_g_raw m ! i ! k) (cs ! j)))
                       (sy_diff S (self_g_raw m ! i ! j) (cs ! k)))))))"
proof -
  let ?n = "length (a_basis a)"
  from constructed_connected [OF assms] obtain cs where cs: "self_coords m = Some cs"
    and n: "self_n m = ?n" and raw: "self_g_raw m = a_g a"
    and dg: "self_dg m = Has (dg_of S (a_g a) cs ?n)"
    and rng: "dg_in_range (dg_of S (a_g a) cs ?n) ?n"
    by blast
  let ?d = "dg_of S (a_g a) cs ?n"
  let ?G = "map (\<lambda>i. map (\<lambda>j. map (\<lambda>l. Simp_apply S (Gamma_ijk S ?d i j l)) [0..<?n])
                      [0..<?n]) [0..<?n]"
  have len: "?n \<le> length cs"
    using dg_in_range_dg_of [OF rng] by (cases "?n = 0") simp_all
  have call: "Christoffel_symbols S m 1 = Inr (m, Some ?G)"
    using assms(2) dg rng n by (simp add: Christoffel_symbols_def Christoffel_first_def)
  have entry: "?G ! i ! j ! k =
       Simp_apply S (sy_mul S (sy_half S)
         (sy_sub S
            (sy_add S (sy_diff S (a_g a ! j ! k) (cs ! i)) (sy_diff S (a_g a ! i ! k) (cs ! j)))
            (sy_diff S (a_g a ! i ! j) (cs ! k))))"
    if "i < ?n" "j < ?n" "k < ?n" for i j k
    using that len by (simp add: Gamma_ijk_def dg_of_nth)
  show ?thesis
    using cs len call entry n raw by (intro exI [of _ cs] exI [of _ ?G]) simp
qed

theorem Christoffel_first_kind_witness:
  "Metric_init mono sheared = Inr sheared_instance \<and> self_connect_flg sheared_instance
   \<and> self_coords sheared_instance = Some [var 0, var 1]
   \<and> Christoffel_symbols mono sheared_instance 1
       = Inr (sheared_instance,
              Some [[[num 0, num 1], [num 0, num 0]], [[num 0, num 0], [num 0, num 0]]])
   \<and> Simp_apply mono (sy_mul mono (sy_half mono)
         (sy_sub mono
            (sy_add mono (sy_diff mono (self_g_raw sheared_instance ! 0 ! 1) (var 0))
                         (sy_diff mono (self_g_raw sheared_instance ! 0 ! 1) (var 0)))
            (sy_diff mono (self_g_raw sheared_instance ! 0 ! 0) (var 1)))) = num 1"
proof -
  have c: "self_connect_flg sheared_instance"
    "self_coords sheared_instance = Some [var 0, var 1]"
    by (simp_all add: sheared_instance_def)
  have e: "Christoffel_symbols mono sheared_instance 1
       = Inr (sheared_instance,
              Some [[[num 0, num 1], [num 0, num 0]], [[num 0, num 0], [num 0, num 0]]])"
    by code_simp
  have n: "self_n sheared_instance = 2" by (simp add: sheared_instance_def)
  from Christoffel_first_kind [OF sheared_constructed c(1)] c e n
  have "[[[num 0, num 1], [num 0, num 0]], [[num 0, num 0], [num 0, num 0]]] ! 0 ! 0 ! 1 =
        Simp_apply mono (sy_mul mono (sy_half mono)
         (sy_sub mono
            (sy_add mono (sy_diff mono (self_g_raw sheared_instance ! 0 ! 1) ([var 0, var 1] ! 0))
                         (sy_diff mono (self_g_raw sheared_instance ! 0 ! 1) ([var 0, var 1] ! 0)))
            (sy_diff mono (self_g_raw sheared_instance ! 0 ! 0) ([var 0, var 1] ! 1))))"
    by (auto simp del: nth_Cons_0 nth_Cons_Suc nth_Cons_numeral)
  then show ?thesis
    using sheared_constructed c e by simp
qed

text \<open>
  With normalization the derivatives of the working metric \<^verbatim>\<open>self.g\<close> are not the
  entries of \<^verbatim>\<open>self.dg\<close>: for \<open>g = [[x\<^sub>0\<^sup>2]]\<close> the symbol returned is \<open>x\<^sub>0\<close>, and the
  formula over the derivatives of \<^verbatim>\<open>self.g = [[1]]\<close> gives \<open>0\<close>.
\<close>

theorem Christoffel_after_normalization_counterexample:
  "Metric_init mono polar1 = Inr polar1_instance \<and> self_connect_flg polar1_instance
   \<and> self_coords polar1_instance = Some [var 0]
   \<and> Christoffel_symbols mono polar1_instance 1 = Inr (polar1_instance, Some [[[var 0]]])
   \<and> Simp_apply mono (sy_mul mono (sy_half mono)
         (sy_sub mono
            (sy_add mono (sy_diff mono (self_g polar1_instance ! 0 ! 0) (var 0))
                         (sy_diff mono (self_g polar1_instance ! 0 ! 0) (var 0)))
            (sy_diff mono (self_g polar1_instance ! 0 ! 0) (var 0)))) = num 0
   \<and> var 0 \<noteq> num 0"
proof -
  have "Christoffel_symbols mono polar1_instance 1 = Inr (polar1_instance, Some [[[var 0]]])"
    by code_simp
  moreover have "Simp_apply mono (sy_mul mono (sy_half mono)
         (sy_sub mono
            (sy_add mono (sy_diff mono (self_g polar1_instance ! 0 ! 0) (var 0))
                         (sy_diff mono (self_g polar1_instance ! 0 ! 0) (var 0)))
            (sy_diff mono (self_g polar1_instance ! 0 ! 0) (var 0)))) = num 0"
    by code_simp
  moreover have "var 0 \<noteq> num 0" by (simp add: var_def num_def mk_def)
  ultimately show ?thesis
    using polar1_constructed by (simp add: polar1_instance_def)
qed

subsection \<open>Symmetry\<close>










subsection \<open>Round trip of the linear expansion\<close>

lemma index_of_in:
  assumes "x \<in> set xs"
  shows "index_of xs x < length xs \<and> xs ! index_of xs x = x"
  using assms by (induction xs) auto

lemma expand_foldl:
  assumes E1: "\<forall>x y. sy_expand S (sy_add S x y) = sy_add S (sy_expand S x) (sy_expand S y)"
  shows "sy_expand S (foldl (\<lambda>obj (coef, base). sy_add S obj (sy_mul S coef base)) acc ps)
           = esum S (sy_expand S acc) ps"
  unfolding esum_def
  by (induction ps arbitrary: acc) (auto simp: E1)

lemma esum_add_acc:
  assumes A1: "\<forall>x y z. sy_add S (sy_add S x y) z = sy_add S x (sy_add S y z)"
    and A2: "\<forall>x y. sy_add S x y = sy_add S y x"
  shows "esum S (sy_add S acc y) ps = sy_add S (esum S acc ps) y"
proof (induction ps arbitrary: acc)
  case Nil
  show ?case by (simp add: esum_def)
next
  case (Cons p ps)
  obtain c b where p: "p = (c, b)" by (cases p)
  have "sy_add S (sy_add S acc y) (sy_expand S (sy_mul S c b))
          = sy_add S (sy_add S acc (sy_expand S (sy_mul S c b))) y"
    using A1 A2 by metis
  with Cons.IH [of "sy_add S acc (sy_expand S (sy_mul S c b))"] p show ?case
    by (simp add: esum_def)
qed

lemma esum_update:
  assumes A1: "\<forall>x y z. sy_add S (sy_add S x y) z = sy_add S x (sy_add S y z)"
    and A2: "\<forall>x y. sy_add S x y = sy_add S y x"
    and E2: "sy_expand S (sy_mul S (sy_add S c c') b)
               = sy_add S (sy_expand S (sy_mul S c b)) (sy_expand S (sy_mul S c' b))"
    and i: "i < length ps" and pi: "ps ! i = (c, b)"
  shows "esum S acc (ps[i := (sy_add S c c', b)])
           = sy_add S (esum S acc ps) (sy_expand S (sy_mul S c' b))"
  using i pi
proof (induction ps arbitrary: acc i)
  case Nil
  then show ?case by simp
next
  case (Cons p ps)
  show ?case
  proof (cases i)
    case 0
    with Cons.prems have p: "p = (c, b)" by simp
    have "sy_add S acc (sy_add S (sy_expand S (sy_mul S c b)) (sy_expand S (sy_mul S c' b)))
            = sy_add S (sy_add S acc (sy_expand S (sy_mul S c b))) (sy_expand S (sy_mul S c' b))"
      using A1 by simp
    with 0 p E2 esum_add_acc [OF A1 A2, of "sy_add S acc (sy_expand S (sy_mul S c b))"
        "sy_expand S (sy_mul S c' b)" ps]
    show ?thesis by (simp add: esum_def)
  next
    case (Suc k)
    obtain c0 b0 where p: "p = (c0, b0)" by (cases p)
    from Cons.prems Suc have "k < length ps" "ps ! k = (c, b)" by simp_all
    from Cons.IH [OF this, of "sy_add S acc (sy_expand S (sy_mul S c0 b0))"] Suc p
    show ?thesis by (simp add: esum_def)
  qed
qed

lemma zip_update_left: "zip (xs[i := x]) ys = (zip xs ys)[i := (x, ys ! i)]"
  using zip_update [of xs i x ys "ys ! i"] by simp

lemma esum_snoc:
  "esum S acc (ps @ [(c, b)]) = sy_add S (esum S acc ps) (sy_expand S (sy_mul S c b))"
  by (simp add: esum_def)

lemma expand_term_step:
  assumes A1: "\<forall>x y z. sy_add S (sy_add S x y) z = sy_add S x (sy_add S y z)"
    and A2: "\<forall>x y. sy_add S x y = sy_add S y x"
    and M1: "\<forall>x. sy_mul S x (sy_one S) = x"
    and E2: "\<forall>x y z. z = sy_one S \<or> \<not> sy_is_commutative S z \<longrightarrow>
               sy_expand S (sy_mul S (sy_add S x y) z)
                 = sy_add S (sy_expand S (sy_mul S x z)) (sy_expand S (sy_mul S y z))"
    and inv: "bases_ok S cb" and t: "term_ok S t"
  shows "bases_ok S (expand_term S cb t)
       \<and> esum S acc (zip (fst (expand_term S cb t)) (snd (expand_term S cb t)))
           = sy_add S (esum S acc (zip (fst cb) (snd cb))) t"
proof -
  obtain coefs bases where cb: "cb = (coefs, bases)" by (cases cb)
  from inv cb have len: "length coefs = length bases"
    and bs: "\<forall>b \<in> set bases. b = sy_one S \<or> \<not> sy_is_commutative S b"
    by (simp_all add: bases_ok_def list_all_iff)
  define coef where "coef = (if sy_is_commutative S t then t
                             else sy_mul_from_args S (fst (sy_args_cnc S t)))"
  define base where "base = (if sy_is_commutative S t then sy_one S
                             else fst (snd (sy_args_cnc S t)))"
  have et: "expand_term S cb t =
      (if base \<in> set bases
       then (coefs[index_of bases base := sy_add S (coefs ! index_of bases base) coef], bases)
       else (coefs @ [coef], bases @ [base]))"
    by (simp add: expand_term_def cb coef_def base_def Let_def)
  have prod: "sy_expand S (sy_mul S coef base) = t"
    using t M1 by (auto simp: term_ok_def coef_def base_def)
  have b_ok: "base = sy_one S \<or> \<not> sy_is_commutative S base"
    using t by (auto simp: term_ok_def base_def)
  show ?thesis
  proof (cases "base \<in> set bases")
    case False
    with et len bs b_ok prod cb show ?thesis
      by (simp add: bases_ok_def list_all_iff esum_snoc)
  next
    case True
    let ?i = "index_of bases base"
    from index_of_in [OF True] have i: "?i < length bases" "bases ! ?i = base" by simp_all
    with len have zi: "?i < length (zip coefs bases)" "zip coefs bases ! ?i = (coefs ! ?i, base)"
      by simp_all
    have e2: "sy_expand S (sy_mul S (sy_add S (coefs ! ?i) coef) base)
               = sy_add S (sy_expand S (sy_mul S (coefs ! ?i) base))
                          (sy_expand S (sy_mul S coef base))"
      using E2 b_ok by blast
    from esum_update [OF A1 A2 e2 zi, of acc] prod i
    have "esum S acc (zip (coefs[?i := sy_add S (coefs ! ?i) coef]) bases)
            = sy_add S (esum S acc (zip coefs bases)) t"
      by (simp add: zip_update_left)
    with True et len bs cb show ?thesis
      by (simp add: bases_ok_def list_all_iff)
  qed
qed

lemma expand_terms_fold:
  assumes A1: "\<forall>x y z. sy_add S (sy_add S x y) z = sy_add S x (sy_add S y z)"
    and A2: "\<forall>x y. sy_add S x y = sy_add S y x"
    and M1: "\<forall>x. sy_mul S x (sy_one S) = x"
    and E2: "\<forall>x y z. z = sy_one S \<or> \<not> sy_is_commutative S z \<longrightarrow>
               sy_expand S (sy_mul S (sy_add S x y) z)
                 = sy_add S (sy_expand S (sy_mul S x z)) (sy_expand S (sy_mul S y z))"
    and inv: "bases_ok S cb" and ts: "\<forall>t \<in> set args. term_ok S t"
  shows "esum S acc (zip (fst (foldl (expand_term S) cb args))
                         (snd (foldl (expand_term S) cb args)))
           = foldl (sy_add S) (esum S acc (zip (fst cb) (snd cb))) args"
  using inv ts
proof (induction args arbitrary: cb)
  case Nil
  show ?case by simp
next
  case (Cons t args)
  from Cons.prems have t: "term_ok S t" and rest: "\<forall>t \<in> set args. term_ok S t" by simp_all
  note step = expand_term_step [OF A1 A2 M1 E2 Cons.prems(1) t, of acc]
  from Cons.IH [of "expand_term S cb t"] step rest show ?case by simp
qed

text \<open>
  C6, as amended. For every expression \<open>e\<close> whose expanded additive terms each hold at
  most one non-commutative factor (each term is the product of its commutative part
  and that factor), summing \<open>coefficient * basis\<close> over the pairs of
  \<^verbatim>\<open>linear_expand(e)\<close> and expanding the sum gives the expansion of \<open>e\<close>. The laws of
  sympy's exact expressions that the regrouping by basis rests on are hypotheses on the
  substrate: \<open>+\<close> is associative and commutative with unit \<open>0\<close>; \<open>x \<cdot> 1 = x\<close>;
  expansion maps \<open>0\<close> to \<open>0\<close>, distributes over \<open>+\<close>, and distributes a sum of
  coefficients over a basis; a sum is the sum of its arguments.
\<close>

theorem linear_expand_round_trip:
  assumes A1: "\<forall>x y z. sy_add S (sy_add S x y) z = sy_add S x (sy_add S y z)"
    and A2: "\<forall>x y. sy_add S x y = sy_add S y x"
    and A3: "\<forall>x. sy_add S (sy_zero S) x = x"
    and M1: "\<forall>x. sy_mul S x (sy_one S) = x"
    and E0: "sy_expand S (sy_zero S) = sy_zero S"
    and E1: "\<forall>x y. sy_expand S (sy_add S x y) = sy_add S (sy_expand S x) (sy_expand S y)"
    and E2: "\<forall>x y z. z = sy_one S \<or> \<not> sy_is_commutative S z \<longrightarrow>
               sy_expand S (sy_mul S (sy_add S x y) z)
                 = sy_add S (sy_expand S (sy_mul S x z)) (sy_expand S (sy_mul S y z))"
    and sum: "foldl (sy_add S) (sy_zero S) (expanded_terms S e) = sy_expand S e"
    and terms: "\<forall>t \<in> set (expanded_terms S e). term_ok S t"
  shows "sy_expand S (recombine S (linear_expand S e)) = sy_expand S e"
proof -
  let ?E = "sy_expand S e"
  have V: "sy_expand S (recombine S cb) = esum S (sy_zero S) (zip (fst cb) (snd cb))" for cb
    unfolding recombine_def using expand_foldl [OF E1, of "sy_zero S"] E0 by simp
  have single: "sy_expand S (recombine S ([x], [sy_one S])) = sy_expand S x" for x
    using A3 M1 by (simp add: recombine_def)
  have fold: "sy_expand S (recombine S (foldl (expand_term S) ([], []) args))
                = foldl (sy_add S) (sy_zero S) args"
    if "\<forall>t \<in> set args. term_ok S t" for args
    using expand_terms_fold [OF A1 A2 M1 E2 _ that, of "([], [])" "sy_zero S"]
    by (simp add: V bases_ok_def esum_def)
  show ?thesis
  proof (cases "?E = sy_zero S")
    case True
    then show ?thesis using single [of ?E] E0 by (simp add: linear_expand_def)
  next
    case False
    show ?thesis
    proof (cases "sy_add_args S ?E")
      case (Some args)
      with sum terms have "foldl (sy_add S) (sy_zero S) args = ?E" "\<forall>t \<in> set args. term_ok S t"
        by (simp_all add: expanded_terms_def)
      with fold [of args] False Some show ?thesis by (simp add: linear_expand_def)
    next
      case None
      with terms have ok: "term_ok S ?E" by (simp add: expanded_terms_def)
      show ?thesis
      proof (cases "sy_is_commutative S ?E")
        case True
        with False None single [of ?E] ok show ?thesis
          by (simp add: linear_expand_def term_ok_def)
      next
        case nc: False
        from ok have "\<forall>t \<in> set [?E]. term_ok S t" by simp
        from fold [OF this] A3 False None nc show ?thesis
          by (simp add: linear_expand_def)
      qed
    qed
  qed
qed

theorem linear_expand_round_trip_witness:
  "expanded_terms lin1 (2, 3) = [(2, 0), (0, 3)]
   \<and> linear_expand lin1 (2, 3) = ([(2, 0), (3, 0)], [(1, 0), (0, 1)])
   \<and> sy_expand lin1 (recombine lin1 (linear_expand lin1 (2, 3))) = (2, 3)"
proof -
  have A1: "\<forall>x y z. sy_add lin1 (sy_add lin1 x y) z = sy_add lin1 x (sy_add lin1 y z)"
    and A2: "\<forall>x y. sy_add lin1 x y = sy_add lin1 y x"
    and A3: "\<forall>x. sy_add lin1 (sy_zero lin1) x = x"
    and M1: "\<forall>x. sy_mul lin1 x (sy_one lin1) = x"
    and E0: "sy_expand lin1 (sy_zero lin1) = sy_zero lin1"
    and E1: "\<forall>x y. sy_expand lin1 (sy_add lin1 x y)
                      = sy_add lin1 (sy_expand lin1 x) (sy_expand lin1 y)"
    by (simp_all add: lin1_def l_mul_def)
  have E2: "\<forall>x y z. z = sy_one lin1 \<or> \<not> sy_is_commutative lin1 z \<longrightarrow>
               sy_expand lin1 (sy_mul lin1 (sy_add lin1 x y) z)
                 = sy_add lin1 (sy_expand lin1 (sy_mul lin1 x z))
                               (sy_expand lin1 (sy_mul lin1 y z))"
    by (simp add: lin1_def l_mul_def algebra_simps)
  have ts: "expanded_terms lin1 (2, 3) = [(2, 0), (0, 3)]"
    by (simp add: expanded_terms_def lin1_def)
  have sum: "foldl (sy_add lin1) (sy_zero lin1) (expanded_terms lin1 (2, 3))
               = sy_expand lin1 (2, 3)"
    unfolding ts by (simp add: lin1_def)
  have terms: "\<forall>t \<in> set (expanded_terms lin1 (2, 3)). term_ok lin1 t"
    unfolding ts by (simp add: term_ok_def lin1_def l_mul_def)
  have le: "linear_expand lin1 (2, 3) = ([(2, 0), (3, 0)], [(1, 0), (0, 1)])"
    by (simp add: linear_expand_def expand_term_def lin1_def l_mul_def)
  from linear_expand_round_trip [OF A1 A2 A3 M1 E0 E1 E2 sum terms] ts le
  show ?thesis by (simp add: lin1_def)
qed

text \<open>
  For a term with two non-commutative factors the statement fails: \<^verbatim>\<open>linear_expand\<close>
  keeps \<^verbatim>\<open>nc[0]\<close> only, so the product \<open>e\<^sub>0 \<cdot> e\<^sub>1\<close> of two basis symbols comes back as
  \<open>e\<^sub>0\<close>.
\<close>

theorem linear_expand_two_factors_counterexample:
  "sy_mul mono (e_sub 0) (e_sub 1) = Term 1 0 0 [Basis 0, Basis 1]
   \<and> sy_expand mono (Term 1 0 0 [Basis 0, Basis 1]) = Term 1 0 0 [Basis 0, Basis 1]
   \<and> linear_expand mono (Term 1 0 0 [Basis 0, Basis 1]) = ([num 1], [e_sub 0])
   \<and> sy_expand mono (recombine mono (linear_expand mono (Term 1 0 0 [Basis 0, Basis 1])))
        = e_sub 0
   \<and> e_sub 0 \<noteq> Term 1 0 0 [Basis 0, Basis 1]"
proof -
  have "sy_mul mono (e_sub 0) (e_sub 1) = Term 1 0 0 [Basis 0, Basis 1]"
    "sy_expand mono (Term 1 0 0 [Basis 0, Basis 1]) = Term 1 0 0 [Basis 0, Basis 1]"
    "linear_expand mono (Term 1 0 0 [Basis 0, Basis 1]) = ([num 1], [e_sub 0])"
    "sy_expand mono (recombine mono (linear_expand mono (Term 1 0 0 [Basis 0, Basis 1])))
        = e_sub 0"
    by code_simp+
  moreover have "e_sub 0 \<noteq> Term 1 0 0 [Basis 0, Basis 1]" by (simp add: e_sub_def)
  ultimately show ?thesis by simp
qed

end
